theory Spec2Isabelle
  imports Main
begin

section \<open>Go values\<close>

text \<open>
  A value of Go's \<^verbatim>\<open>interface{}\<close> as it comes out of unmarshalling: \<open>JNil\<close> is the nil
  interface value (a JSON null, and the zero value of an unset field), \<open>JObj\<close> is a
  \<^verbatim>\<open>map[string]interface{}\<close> and \<open>JArr\<close> a \<^verbatim>\<open>[]interface{}\<close>. The code never computes with
  a number, so its payload is kept as an integer.
\<close>

datatype json =
    JNil
  | JBool bool
  | JNum int
  | JStr string
  | JArr "json list"
  | JObj "string \<Rightarrow> json option"

text \<open>
  The errors of \<^verbatim>\<open>DeserializeQuestion\<close>, one constructor for each \<^verbatim>\<open>fmt.Errorf\<close> of the
  source, and \<open>Failure\<close> for an error that comes from a collaborator (a property's or a
  value's own deserializer or serializer, \<^verbatim>\<open>url.Parse\<close>).
\<close>

datatype error =
    NoTypeProperty
  | TypeNotOf string
  | TypeNotFound
  | TypeUnrecognized
  | Failure string

text \<open>
  A \<^verbatim>\<open>*url.URL\<close>. This repository reads only its \<^verbatim>\<open>Scheme\<close> and calls \<^verbatim>\<open>String()\<close>; the
  fields behind the scheme are kept together as the text that follows the colon.
\<close>

record URL =
  Scheme :: string
  Remainder :: string

definition vocabularyURI :: string where
  "vocabularyURI = ''https://www.w3.org/TR/activitystreams-vocabulary''"

text \<open>
  The first lines of every deserializer: the alias under which \<^verbatim>\<open>aliasMap\<close> imports the
  vocabulary (empty when it has no entry), and the key of a property under that alias
  (\<^verbatim>\<open>fmt.Sprintf("%s:%s", alias, name)\<close> when the alias is not empty).
\<close>

definition alias_of :: "(string \<Rightarrow> string option) \<Rightarrow> string" where
  "alias_of aliasMap = (case aliasMap vocabularyURI of Some a \<Rightarrow> a | None \<Rightarrow> [])"

definition propName_of :: "string \<Rightarrow> string \<Rightarrow> string" where
  "propName_of a name = (if length a > 0 then a @ '':'' @ name else name)"

text \<open>
  \<^verbatim>\<open>aliasPrefix\<close> of \<^verbatim>\<open>DeserializeQuestion\<close> (source lines 97 to 102): the alias and a colon
  when \<^verbatim>\<open>aliasMap\<close> has an entry for the vocabulary, empty otherwise.
\<close>

definition aliasPrefix_of :: "(string \<Rightarrow> string option) \<Rightarrow> string" where
  "aliasPrefix_of aliasMap = (case aliasMap vocabularyURI of Some a \<Rightarrow> a @ '':'' | None \<Rightarrow> [])"

text \<open>
  The methods this code calls on a value of the vocabulary (a \<^verbatim>\<open>vocab.ActivityStreamsLink\<close>,
  \<^verbatim>\<open>vocab.ActivityStreamsCollection\<close>, ...). They are interface methods implemented outside
  these files, so every function below that calls one takes them as a parameter.
\<close>

record 'v vocab_Type =
  JSONLDContext_of :: "'v \<Rightarrow> string \<Rightarrow> string option"
  Serialize_of :: "'v \<Rightarrow> error + (string \<Rightarrow> json option)"

text \<open>
  The registry \<^verbatim>\<open>mgr\<close>: each field is the function a call such as
  \<^verbatim>\<open>mgr.DeserializeLinkActivityStreams()\<close> returns. A Go result \<^verbatim>\<open>(v, err)\<close> with a non-nil
  \<^verbatim>\<open>err\<close> is \<open>Inl err\<close>; with a nil \<^verbatim>\<open>err\<close> it is \<open>Inr v\<close>, where \<open>v\<close> is an interface value
  and may itself be nil (\<open>None\<close>).
\<close>

type_synonym 'v deserializer =
  "(string \<Rightarrow> json option) \<Rightarrow> (string \<Rightarrow> string option) \<Rightarrow> error + 'v option"

record 'v manager =
  DeserializeLinkActivityStreams :: "'v deserializer"
  DeserializeCollectionActivityStreams :: "'v deserializer"
  DeserializeCollectionPageActivityStreams :: "'v deserializer"
  DeserializeMentionActivityStreams :: "'v deserializer"
  DeserializeOrderedCollectionActivityStreams :: "'v deserializer"
  DeserializeOrderedCollectionPageActivityStreams :: "'v deserializer"

section \<open>The functional property "partOf"\<close>

text \<open>
  The struct \<^verbatim>\<open>ActivityStreamsPartOfProperty\<close>, field by field. A member is an interface
  value: \<open>None\<close> is nil.
\<close>

record 'v ActivityStreamsPartOfProperty =
  activitystreamsLinkMember :: "'v option"
  activitystreamsCollectionMember :: "'v option"
  activitystreamsCollectionPageMember :: "'v option"
  activitystreamsMentionMember :: "'v option"
  activitystreamsOrderedCollectionMember :: "'v option"
  activitystreamsOrderedCollectionPageMember :: "'v option"
  unknown :: json
  iri :: "URL option"
  "alias" :: string

text \<open>\<^verbatim>\<open>&ActivityStreamsPartOfProperty{alias: ""}\<close>: every other field has its zero value.\<close>

definition NewActivityStreamsPartOfProperty :: "'v ActivityStreamsPartOfProperty" where
  "NewActivityStreamsPartOfProperty =
     \<lparr> activitystreamsLinkMember = None,
       activitystreamsCollectionMember = None,
       activitystreamsCollectionPageMember = None,
       activitystreamsMentionMember = None,
       activitystreamsOrderedCollectionMember = None,
       activitystreamsOrderedCollectionPageMember = None,
       unknown = JNil,
       iri = None,
       alias = [] \<rparr>"

text \<open>
  The string branch of \<^verbatim>\<open>DeserializePartOfProperty\<close> (source lines 41 to 52): the value is
  a string, \<^verbatim>\<open>url.Parse\<close> returns no error and the parsed scheme is not empty. \<open>None\<close> is
  the fall through to the next \<^verbatim>\<open>if\<close>.
\<close>

definition partOf_string_branch ::
  "(string \<Rightarrow> error + URL) \<Rightarrow> string \<Rightarrow> json \<Rightarrow> 'v ActivityStreamsPartOfProperty option" where
  "partOf_string_branch url_Parse a i =
     (case i of
        JStr s \<Rightarrow>
          (case url_Parse s of
             Inr u \<Rightarrow>
               if length (Scheme u) > 0
               then Some (NewActivityStreamsPartOfProperty \<lparr> alias := a, iri := Some u \<rparr>)
               else None
           | Inl err \<Rightarrow> None)
      | _ \<Rightarrow> None)"

text \<open>
  The map branch (source lines 53 to 91): the \<^verbatim>\<open>if ... else if\<close> chain over the registry's
  deserializers, in the order Link, Collection, CollectionPage, Mention,
  OrderedCollection, OrderedCollectionPage. The first one whose \<^verbatim>\<open>err\<close> is nil decides.
\<close>

definition partOf_map_branch ::
  "'v manager \<Rightarrow> string \<Rightarrow> (string \<Rightarrow> string option) \<Rightarrow> json
     \<Rightarrow> 'v ActivityStreamsPartOfProperty option" where
  "partOf_map_branch mgr a aliasMap i =
     (case i of
        JObj m \<Rightarrow>
          (case DeserializeLinkActivityStreams mgr m aliasMap of
             Inr v \<Rightarrow> Some (NewActivityStreamsPartOfProperty
                              \<lparr> activitystreamsLinkMember := v, alias := a \<rparr>)
           | Inl e1 \<Rightarrow>
          (case DeserializeCollectionActivityStreams mgr m aliasMap of
             Inr v \<Rightarrow> Some (NewActivityStreamsPartOfProperty
                              \<lparr> activitystreamsCollectionMember := v, alias := a \<rparr>)
           | Inl e2 \<Rightarrow>
          (case DeserializeCollectionPageActivityStreams mgr m aliasMap of
             Inr v \<Rightarrow> Some (NewActivityStreamsPartOfProperty
                              \<lparr> activitystreamsCollectionPageMember := v, alias := a \<rparr>)
           | Inl e3 \<Rightarrow>
          (case DeserializeMentionActivityStreams mgr m aliasMap of
             Inr v \<Rightarrow> Some (NewActivityStreamsPartOfProperty
                              \<lparr> activitystreamsMentionMember := v, alias := a \<rparr>)
           | Inl e4 \<Rightarrow>
          (case DeserializeOrderedCollectionActivityStreams mgr m aliasMap of
             Inr v \<Rightarrow> Some (NewActivityStreamsPartOfProperty
                              \<lparr> activitystreamsOrderedCollectionMember := v, alias := a \<rparr>)
           | Inl e5 \<Rightarrow>
          (case DeserializeOrderedCollectionPageActivityStreams mgr m aliasMap of
             Inr v \<Rightarrow> Some (NewActivityStreamsPartOfProperty
                              \<lparr> activitystreamsOrderedCollectionPageMember := v, alias := a \<rparr>)
           | Inl e6 \<Rightarrow> None))))))
      | _ \<Rightarrow> None)"

text \<open>
  \<^verbatim>\<open>DeserializePartOfProperty\<close>. The result \<^verbatim>\<open>(nil, nil)\<close> is \<open>Inr None\<close>; the function has
  no \<^verbatim>\<open>return\<close> with a non-nil error. \<^verbatim>\<open>url.Parse\<close> is the standard library's and is a
  parameter.
\<close>

definition DeserializePartOfProperty ::
  "(string \<Rightarrow> error + URL) \<Rightarrow> 'v manager \<Rightarrow> (string \<Rightarrow> json option)
     \<Rightarrow> (string \<Rightarrow> string option) \<Rightarrow> error + 'v ActivityStreamsPartOfProperty option" where
  "DeserializePartOfProperty url_Parse mgr m aliasMap =
     (let a = alias_of aliasMap;
          propName = propName_of a ''partOf''
      in case m propName of
           None \<Rightarrow> Inr None
         | Some i \<Rightarrow>
             (case partOf_string_branch url_Parse a i of
                Some this \<Rightarrow> Inr (Some this)
              | None \<Rightarrow>
             (case partOf_map_branch mgr a aliasMap i of
                Some this \<Rightarrow> Inr (Some this)
              | None \<Rightarrow>
                Inr (Some (NewActivityStreamsPartOfProperty \<lparr> unknown := i, alias := a \<rparr>)))))"

definition Clear :: "'v ActivityStreamsPartOfProperty \<Rightarrow> 'v ActivityStreamsPartOfProperty" where
  "Clear this =
     this \<lparr> activitystreamsLinkMember := None,
            activitystreamsCollectionMember := None,
            activitystreamsCollectionPageMember := None,
            activitystreamsMentionMember := None,
            activitystreamsOrderedCollectionMember := None,
            activitystreamsOrderedCollectionPageMember := None,
            unknown := JNil,
            iri := None \<rparr>"

definition IsActivityStreamsLink :: "'v ActivityStreamsPartOfProperty \<Rightarrow> bool" where
  "IsActivityStreamsLink this = (activitystreamsLinkMember this \<noteq> None)"

definition IsActivityStreamsCollection :: "'v ActivityStreamsPartOfProperty \<Rightarrow> bool" where
  "IsActivityStreamsCollection this = (activitystreamsCollectionMember this \<noteq> None)"

definition IsActivityStreamsCollectionPage :: "'v ActivityStreamsPartOfProperty \<Rightarrow> bool" where
  "IsActivityStreamsCollectionPage this = (activitystreamsCollectionPageMember this \<noteq> None)"

definition IsActivityStreamsMention :: "'v ActivityStreamsPartOfProperty \<Rightarrow> bool" where
  "IsActivityStreamsMention this = (activitystreamsMentionMember this \<noteq> None)"

definition IsActivityStreamsOrderedCollection :: "'v ActivityStreamsPartOfProperty \<Rightarrow> bool" where
  "IsActivityStreamsOrderedCollection this =
     (activitystreamsOrderedCollectionMember this \<noteq> None)"

definition IsActivityStreamsOrderedCollectionPage ::
  "'v ActivityStreamsPartOfProperty \<Rightarrow> bool" where
  "IsActivityStreamsOrderedCollectionPage this =
     (activitystreamsOrderedCollectionPageMember this \<noteq> None)"

definition IsIRI :: "'v ActivityStreamsPartOfProperty \<Rightarrow> bool" where
  "IsIRI this = (iri this \<noteq> None)"

text \<open>\<^verbatim>\<open>GetType\<close>: the typed member that is set, in the order of the \<^verbatim>\<open>Is\<close> tests, or nil.\<close>

definition GetType :: "'v ActivityStreamsPartOfProperty \<Rightarrow> 'v option" where
  "GetType this =
     (if IsActivityStreamsLink this then activitystreamsLinkMember this
      else if IsActivityStreamsCollection this then activitystreamsCollectionMember this
      else if IsActivityStreamsCollectionPage this then activitystreamsCollectionPageMember this
      else if IsActivityStreamsMention this then activitystreamsMentionMember this
      else if IsActivityStreamsOrderedCollection this
        then activitystreamsOrderedCollectionMember this
      else if IsActivityStreamsOrderedCollectionPage this
        then activitystreamsOrderedCollectionPageMember this
      else None)"

definition HasAny :: "'v ActivityStreamsPartOfProperty \<Rightarrow> bool" where
  "HasAny this =
     (IsActivityStreamsLink this \<or>
      IsActivityStreamsCollection this \<or>
      IsActivityStreamsCollectionPage this \<or>
      IsActivityStreamsMention this \<or>
      IsActivityStreamsOrderedCollection this \<or>
      IsActivityStreamsOrderedCollectionPage this \<or>
      iri this \<noteq> None)"

definition KindIndex :: "'v ActivityStreamsPartOfProperty \<Rightarrow> int" where
  "KindIndex this =
     (if IsActivityStreamsLink this then 0
      else if IsActivityStreamsCollection this then 1
      else if IsActivityStreamsCollectionPage this then 2
      else if IsActivityStreamsMention this then 3
      else if IsActivityStreamsOrderedCollection this then 4
      else if IsActivityStreamsOrderedCollectionPage this then 5
      else if IsIRI this then - 2
      else - 1)"

text \<open>
  \<^verbatim>\<open>JSONLDContext\<close>. \<open>child\<close> stays the nil map (no entry) when no typed member is set. The
  loop \<^verbatim>\<open>for k, v := range child { m[k] = v }\<close> assigns every entry of \<open>child\<close> into
  \<open>m\<close>; the keys of a Go map are distinct, so whatever order the loop takes the result is
  \<open>m\<close> overridden by \<open>child\<close>, which is \<open>m ++ child\<close>. A member is read only under its
  \<^verbatim>\<open>Is\<close> test, where it is not nil.
\<close>

definition JSONLDContext ::
  "'v vocab_Type \<Rightarrow> 'v ActivityStreamsPartOfProperty \<Rightarrow> string \<Rightarrow> string option" where
  "JSONLDContext V this =
     (let m = Map.empty (vocabularyURI \<mapsto> alias this);
          child =
            (if IsActivityStreamsLink this
               then JSONLDContext_of V (the (activitystreamsLinkMember this))
             else if IsActivityStreamsCollection this
               then JSONLDContext_of V (the (activitystreamsCollectionMember this))
             else if IsActivityStreamsCollectionPage this
               then JSONLDContext_of V (the (activitystreamsCollectionPageMember this))
             else if IsActivityStreamsMention this
               then JSONLDContext_of V (the (activitystreamsMentionMember this))
             else if IsActivityStreamsOrderedCollection this
               then JSONLDContext_of V (the (activitystreamsOrderedCollectionMember this))
             else if IsActivityStreamsOrderedCollectionPage this
               then JSONLDContext_of V (the (activitystreamsOrderedCollectionPageMember this))
             else Map.empty)
      in m ++ child)"

text \<open>
  \<^verbatim>\<open>Serialize\<close>. A typed member's own \<^verbatim>\<open>Serialize\<close> returns a map, handed on as an
  \<^verbatim>\<open>interface{}\<close>; \<^verbatim>\<open>String()\<close> of the URL is the standard library's and is a parameter.
\<close>

definition Serialize ::
  "'v vocab_Type \<Rightarrow> (URL \<Rightarrow> string) \<Rightarrow> 'v ActivityStreamsPartOfProperty \<Rightarrow> error + json" where
  "Serialize V url_String this =
     (if IsActivityStreamsLink this
        then map_sum id JObj (Serialize_of V (the (activitystreamsLinkMember this)))
      else if IsActivityStreamsCollection this
        then map_sum id JObj (Serialize_of V (the (activitystreamsCollectionMember this)))
      else if IsActivityStreamsCollectionPage this
        then map_sum id JObj (Serialize_of V (the (activitystreamsCollectionPageMember this)))
      else if IsActivityStreamsMention this
        then map_sum id JObj (Serialize_of V (the (activitystreamsMentionMember this)))
      else if IsActivityStreamsOrderedCollection this
        then map_sum id JObj (Serialize_of V (the (activitystreamsOrderedCollectionMember this)))
      else if IsActivityStreamsOrderedCollectionPage this
        then map_sum id JObj
               (Serialize_of V (the (activitystreamsOrderedCollectionPageMember this)))
      else if IsIRI this
        then Inr (JStr (url_String (the (iri this))))
      else Inr (unknown this))"

text \<open>The setters: \<^verbatim>\<open>this.Clear()\<close>, then the assignment of the argument, nil or not.\<close>

definition SetActivityStreamsCollection ::
  "'v option \<Rightarrow> 'v ActivityStreamsPartOfProperty \<Rightarrow> 'v ActivityStreamsPartOfProperty" where
  "SetActivityStreamsCollection v this = (Clear this) \<lparr> activitystreamsCollectionMember := v \<rparr>"

definition SetActivityStreamsCollectionPage ::
  "'v option \<Rightarrow> 'v ActivityStreamsPartOfProperty \<Rightarrow> 'v ActivityStreamsPartOfProperty" where
  "SetActivityStreamsCollectionPage v this =
     (Clear this) \<lparr> activitystreamsCollectionPageMember := v \<rparr>"

definition SetActivityStreamsLink ::
  "'v option \<Rightarrow> 'v ActivityStreamsPartOfProperty \<Rightarrow> 'v ActivityStreamsPartOfProperty" where
  "SetActivityStreamsLink v this = (Clear this) \<lparr> activitystreamsLinkMember := v \<rparr>"

definition SetActivityStreamsMention ::
  "'v option \<Rightarrow> 'v ActivityStreamsPartOfProperty \<Rightarrow> 'v ActivityStreamsPartOfProperty" where
  "SetActivityStreamsMention v this = (Clear this) \<lparr> activitystreamsMentionMember := v \<rparr>"

definition SetActivityStreamsOrderedCollection ::
  "'v option \<Rightarrow> 'v ActivityStreamsPartOfProperty \<Rightarrow> 'v ActivityStreamsPartOfProperty" where
  "SetActivityStreamsOrderedCollection v this =
     (Clear this) \<lparr> activitystreamsOrderedCollectionMember := v \<rparr>"

definition SetActivityStreamsOrderedCollectionPage ::
  "'v option \<Rightarrow> 'v ActivityStreamsPartOfProperty \<Rightarrow> 'v ActivityStreamsPartOfProperty" where
  "SetActivityStreamsOrderedCollectionPage v this =
     (Clear this) \<lparr> activitystreamsOrderedCollectionPageMember := v \<rparr>"

definition SetIRI ::
  "URL option \<Rightarrow> 'v ActivityStreamsPartOfProperty \<Rightarrow> 'v ActivityStreamsPartOfProperty" where
  "SetIRI v this = (Clear this) \<lparr> iri := v \<rparr>"

text \<open>
  A sequence of setter calls on one property: each call names its setter and carries its
  argument. \<open>run_calls\<close> applies them from left to right.
\<close>

datatype 'v set_call =
    CallSetActivityStreamsLink "'v option"
  | CallSetActivityStreamsCollection "'v option"
  | CallSetActivityStreamsCollectionPage "'v option"
  | CallSetActivityStreamsMention "'v option"
  | CallSetActivityStreamsOrderedCollection "'v option"
  | CallSetActivityStreamsOrderedCollectionPage "'v option"
  | CallSetIRI "URL option"

fun run_call ::
  "'v set_call \<Rightarrow> 'v ActivityStreamsPartOfProperty \<Rightarrow> 'v ActivityStreamsPartOfProperty" where
  "run_call (CallSetActivityStreamsLink v) this = SetActivityStreamsLink v this"
| "run_call (CallSetActivityStreamsCollection v) this = SetActivityStreamsCollection v this"
| "run_call (CallSetActivityStreamsCollectionPage v) this =
     SetActivityStreamsCollectionPage v this"
| "run_call (CallSetActivityStreamsMention v) this = SetActivityStreamsMention v this"
| "run_call (CallSetActivityStreamsOrderedCollection v) this =
     SetActivityStreamsOrderedCollection v this"
| "run_call (CallSetActivityStreamsOrderedCollectionPage v) this =
     SetActivityStreamsOrderedCollectionPage v this"
| "run_call (CallSetIRI v) this = SetIRI v this"

fun run_calls ::
  "'v set_call list \<Rightarrow> 'v ActivityStreamsPartOfProperty \<Rightarrow> 'v ActivityStreamsPartOfProperty" where
  "run_calls [] this = this"
| "run_calls (c # cs) this = run_calls cs (run_call c this)"

text \<open>Whether a call passes a non-nil argument, and the \<^verbatim>\<open>Is\<close> method that goes with it.\<close>

fun call_arg_not_nil :: "'v set_call \<Rightarrow> bool" where
  "call_arg_not_nil (CallSetActivityStreamsLink v) = (v \<noteq> None)"
| "call_arg_not_nil (CallSetActivityStreamsCollection v) = (v \<noteq> None)"
| "call_arg_not_nil (CallSetActivityStreamsCollectionPage v) = (v \<noteq> None)"
| "call_arg_not_nil (CallSetActivityStreamsMention v) = (v \<noteq> None)"
| "call_arg_not_nil (CallSetActivityStreamsOrderedCollection v) = (v \<noteq> None)"
| "call_arg_not_nil (CallSetActivityStreamsOrderedCollectionPage v) = (v \<noteq> None)"
| "call_arg_not_nil (CallSetIRI v) = (v \<noteq> None)"

fun Is_of_call :: "'v set_call \<Rightarrow> 'v ActivityStreamsPartOfProperty \<Rightarrow> bool" where
  "Is_of_call (CallSetActivityStreamsLink v) = IsActivityStreamsLink"
| "Is_of_call (CallSetActivityStreamsCollection v) = IsActivityStreamsCollection"
| "Is_of_call (CallSetActivityStreamsCollectionPage v) = IsActivityStreamsCollectionPage"
| "Is_of_call (CallSetActivityStreamsMention v) = IsActivityStreamsMention"
| "Is_of_call (CallSetActivityStreamsOrderedCollection v) = IsActivityStreamsOrderedCollection"
| "Is_of_call (CallSetActivityStreamsOrderedCollectionPage v) =
     IsActivityStreamsOrderedCollectionPage"
| "Is_of_call (CallSetIRI v) = IsIRI"

text \<open>The seven \<^verbatim>\<open>Is\<close> methods of the property, and how many of them answer true.\<close>

definition Is_answers :: "'v ActivityStreamsPartOfProperty \<Rightarrow> bool list" where
  "Is_answers this =
     [IsActivityStreamsLink this,
      IsActivityStreamsCollection this,
      IsActivityStreamsCollectionPage this,
      IsActivityStreamsMention this,
      IsActivityStreamsOrderedCollection this,
      IsActivityStreamsOrderedCollectionPage this,
      IsIRI this]"

definition count_true :: "bool list \<Rightarrow> nat" where
  "count_true bs = length (filter (\<lambda>b. b) bs)"

section \<open>The functional property "liked"\<close>

text \<open>
  The struct \<^verbatim>\<open>ActivityStreamsLikedProperty\<close>: the same shape with four typed members,
  OrderedCollection first. Its fields carry the prefix \<open>liked\<close> here, since the two structs
  share their field names.
\<close>

record 'v ActivityStreamsLikedProperty =
  liked_activitystreamsOrderedCollectionMember :: "'v option"
  liked_activitystreamsCollectionMember :: "'v option"
  liked_activitystreamsCollectionPageMember :: "'v option"
  liked_activitystreamsOrderedCollectionPageMember :: "'v option"
  liked_unknown :: json
  liked_iri :: "URL option"
  liked_alias :: string

definition NewActivityStreamsLikedProperty :: "'v ActivityStreamsLikedProperty" where
  "NewActivityStreamsLikedProperty =
     \<lparr> liked_activitystreamsOrderedCollectionMember = None,
       liked_activitystreamsCollectionMember = None,
       liked_activitystreamsCollectionPageMember = None,
       liked_activitystreamsOrderedCollectionPageMember = None,
       liked_unknown = JNil,
       liked_iri = None,
       liked_alias = [] \<rparr>"

definition liked_string_branch ::
  "(string \<Rightarrow> error + URL) \<Rightarrow> string \<Rightarrow> json \<Rightarrow> 'v ActivityStreamsLikedProperty option" where
  "liked_string_branch url_Parse a i =
     (case i of
        JStr s \<Rightarrow>
          (case url_Parse s of
             Inr u \<Rightarrow>
               if length (Scheme u) > 0
               then Some (NewActivityStreamsLikedProperty \<lparr> liked_iri := Some u, liked_alias := a \<rparr>)
               else None
           | Inl err \<Rightarrow> None)
      | _ \<Rightarrow> None)"

text \<open>
  The chain of \<^verbatim>\<open>DeserializeLikedProperty\<close> (source lines 51 to 77): OrderedCollection,
  Collection, CollectionPage, OrderedCollectionPage.
\<close>

definition liked_map_branch ::
  "'v manager \<Rightarrow> string \<Rightarrow> (string \<Rightarrow> string option) \<Rightarrow> json
     \<Rightarrow> 'v ActivityStreamsLikedProperty option" where
  "liked_map_branch mgr a aliasMap i =
     (case i of
        JObj m \<Rightarrow>
          (case DeserializeOrderedCollectionActivityStreams mgr m aliasMap of
             Inr v \<Rightarrow> Some (NewActivityStreamsLikedProperty
                     \<lparr> liked_activitystreamsOrderedCollectionMember := v, liked_alias := a \<rparr>)
           | Inl e1 \<Rightarrow>
          (case DeserializeCollectionActivityStreams mgr m aliasMap of
             Inr v \<Rightarrow> Some (NewActivityStreamsLikedProperty
                     \<lparr> liked_activitystreamsCollectionMember := v, liked_alias := a \<rparr>)
           | Inl e2 \<Rightarrow>
          (case DeserializeCollectionPageActivityStreams mgr m aliasMap of
             Inr v \<Rightarrow> Some (NewActivityStreamsLikedProperty
                     \<lparr> liked_activitystreamsCollectionPageMember := v, liked_alias := a \<rparr>)
           | Inl e3 \<Rightarrow>
          (case DeserializeOrderedCollectionPageActivityStreams mgr m aliasMap of
             Inr v \<Rightarrow> Some (NewActivityStreamsLikedProperty
                     \<lparr> liked_activitystreamsOrderedCollectionPageMember := v, liked_alias := a \<rparr>)
           | Inl e4 \<Rightarrow> None))))
      | _ \<Rightarrow> None)"

definition DeserializeLikedProperty ::
  "(string \<Rightarrow> error + URL) \<Rightarrow> 'v manager \<Rightarrow> (string \<Rightarrow> json option)
     \<Rightarrow> (string \<Rightarrow> string option) \<Rightarrow> error + 'v ActivityStreamsLikedProperty option" where
  "DeserializeLikedProperty url_Parse mgr m aliasMap =
     (let a = alias_of aliasMap;
          propName = propName_of a ''liked''
      in case m propName of
           None \<Rightarrow> Inr None
         | Some i \<Rightarrow>
             (case liked_string_branch url_Parse a i of
                Some this \<Rightarrow> Inr (Some this)
              | None \<Rightarrow>
             (case liked_map_branch mgr a aliasMap i of
                Some this \<Rightarrow> Inr (Some this)
              | None \<Rightarrow>
                Inr (Some (NewActivityStreamsLikedProperty
                             \<lparr> liked_unknown := i, liked_alias := a \<rparr>)))))"

definition Liked_IsIRI :: "'v ActivityStreamsLikedProperty \<Rightarrow> bool" where
  "Liked_IsIRI this = (liked_iri this \<noteq> None)"

section \<open>The dispatch of the two properties, as the specification words it\<close>

text \<open>
  "Attempt each declared candidate kind's own deserializer in the property's fixed
  declared order, accepting the first one that succeeds without error": the index and
  the value of the first deserializer of a list that returns no error.
\<close>

fun first_success ::
  "'v deserializer list \<Rightarrow> (string \<Rightarrow> json option) \<Rightarrow> (string \<Rightarrow> string option)
     \<Rightarrow> (nat \<times> 'v option) option" where
  "first_success [] m aliasMap = None"
| "first_success (d # ds) m aliasMap =
     (case d m aliasMap of
        Inr v \<Rightarrow> Some (0, v)
      | Inl err \<Rightarrow> map_option (\<lambda>(k, v). (Suc k, v)) (first_success ds m aliasMap))"

text \<open>The declared candidates of the two properties, in the order of their struct fields.\<close>

definition partOf_candidates :: "'v manager \<Rightarrow> 'v deserializer list" where
  "partOf_candidates mgr =
     [DeserializeLinkActivityStreams mgr,
      DeserializeCollectionActivityStreams mgr,
      DeserializeCollectionPageActivityStreams mgr,
      DeserializeMentionActivityStreams mgr,
      DeserializeOrderedCollectionActivityStreams mgr,
      DeserializeOrderedCollectionPageActivityStreams mgr]"

definition liked_candidates :: "'v manager \<Rightarrow> 'v deserializer list" where
  "liked_candidates mgr =
     [DeserializeOrderedCollectionActivityStreams mgr,
      DeserializeCollectionActivityStreams mgr,
      DeserializeCollectionPageActivityStreams mgr,
      DeserializeOrderedCollectionPageActivityStreams mgr]"

text \<open>The property that holds value \<open>v\<close> in its \<open>k\<close>-th typed member and nothing else.\<close>

definition partOf_holding :: "string \<Rightarrow> nat \<Rightarrow> 'v option \<Rightarrow> 'v ActivityStreamsPartOfProperty" where
  "partOf_holding a k v =
     (if k = 0 then NewActivityStreamsPartOfProperty
                      \<lparr> activitystreamsLinkMember := v, alias := a \<rparr>
      else if k = 1 then NewActivityStreamsPartOfProperty
                      \<lparr> activitystreamsCollectionMember := v, alias := a \<rparr>
      else if k = 2 then NewActivityStreamsPartOfProperty
                      \<lparr> activitystreamsCollectionPageMember := v, alias := a \<rparr>
      else if k = 3 then NewActivityStreamsPartOfProperty
                      \<lparr> activitystreamsMentionMember := v, alias := a \<rparr>
      else if k = 4 then NewActivityStreamsPartOfProperty
                      \<lparr> activitystreamsOrderedCollectionMember := v, alias := a \<rparr>
      else NewActivityStreamsPartOfProperty
             \<lparr> activitystreamsOrderedCollectionPageMember := v, alias := a \<rparr>)"

definition liked_holding :: "string \<Rightarrow> nat \<Rightarrow> 'v option \<Rightarrow> 'v ActivityStreamsLikedProperty" where
  "liked_holding a k v =
     (if k = 0 then NewActivityStreamsLikedProperty
                      \<lparr> liked_activitystreamsOrderedCollectionMember := v, liked_alias := a \<rparr>
      else if k = 1 then NewActivityStreamsLikedProperty
                      \<lparr> liked_activitystreamsCollectionMember := v, liked_alias := a \<rparr>
      else if k = 2 then NewActivityStreamsLikedProperty
                      \<lparr> liked_activitystreamsCollectionPageMember := v, liked_alias := a \<rparr>
      else NewActivityStreamsLikedProperty
             \<lparr> liked_activitystreamsOrderedCollectionPageMember := v, liked_alias := a \<rparr>)"

section \<open>The standard library's URL, as far as this code observes it\<close>

text \<open>
  \<^verbatim>\<open>url.Parse\<close> and \<^verbatim>\<open>(*URL).String\<close> belong to Go's package \<^verbatim>\<open>net/url\<close>, not to this
  repository, and the functions above take them as parameters. The model below is used
  only to run them on concrete inputs. It follows the library in how a scheme is found
  (\<^verbatim>\<open>getScheme\<close>: letters, and after the first byte digits, \<^verbatim>\<open>+\<close>, \<^verbatim>\<open>-\<close> and \<^verbatim>\<open>.\<close>, up to the
  first colon; a colon in front is the error "missing protocol scheme"; any other byte
  means there is no scheme) and in that \<^verbatim>\<open>Parse\<close> stores the scheme in lower case
  (\<^verbatim>\<open>strings.ToLower\<close>). What follows the colon is kept as it is and written back as it
  is, which is what the library does for a remainder such as \<^verbatim>\<open>//ex.example/x\<close> that needs
  no escaping.
\<close>

definition is_letter :: "char \<Rightarrow> bool" where
  "is_letter c = (c \<in> set ''abcdefghijklmnopqrstuvwxyzABCDEFGHIJKLMNOPQRSTUVWXYZ'')"

definition is_scheme_punct :: "char \<Rightarrow> bool" where
  "is_scheme_punct c = (c \<in> set ''0123456789+-.'')"

definition ToLower_char :: "char \<Rightarrow> char" where
  "ToLower_char c =
     (case map_of (zip ''ABCDEFGHIJKLMNOPQRSTUVWXYZ'' ''abcdefghijklmnopqrstuvwxyz'') c of
        Some l \<Rightarrow> l
      | None \<Rightarrow> c)"

text \<open>
  The loop of \<^verbatim>\<open>getScheme\<close>: \<open>seen\<close> is \<^verbatim>\<open>rawURL[:i]\<close> and the third argument
  \<^verbatim>\<open>rawURL[i:]\<close>, so \<^verbatim>\<open>i == 0\<close> is \<open>seen = []\<close>.
\<close>

fun getScheme_loop :: "string \<Rightarrow> string \<Rightarrow> string \<Rightarrow> error + (string \<times> string)" where
  "getScheme_loop rawURL seen [] = Inr ([], rawURL)"
| "getScheme_loop rawURL seen (c # cs) =
     (if is_letter c then getScheme_loop rawURL (seen @ [c]) cs
      else if is_scheme_punct c then
        (if seen = [] then Inr ([], rawURL) else getScheme_loop rawURL (seen @ [c]) cs)
      else if c = CHR '':'' then
        (if seen = [] then Inl (Failure ''missing protocol scheme'') else Inr (seen, cs))
      else Inr ([], rawURL))"

definition getScheme :: "string \<Rightarrow> error + (string \<times> string)" where
  "getScheme rawURL = getScheme_loop rawURL [] rawURL"

definition net_url_Parse :: "string \<Rightarrow> error + URL" where
  "net_url_Parse rawURL =
     (case getScheme rawURL of
        Inl err \<Rightarrow> Inl err
      | Inr (scheme, rest) \<Rightarrow> Inr \<lparr> Scheme = map ToLower_char scheme, Remainder = rest \<rparr>)"

definition net_url_String :: "URL \<Rightarrow> string" where
  "net_url_String u = (if Scheme u \<noteq> [] then Scheme u @ '':'' else []) @ Remainder u"

section \<open>The type "Question"\<close>

text \<open>
  The struct \<^verbatim>\<open>ActivityStreamsQuestion\<close> has 39 property fields of one shape (an
  interface value, nil when the property is absent), then \<^verbatim>\<open>alias\<close> and \<^verbatim>\<open>unknown\<close>. The
  generated code treats the 39 fields by 39 copies of one block, in the order of the
  struct. Here the fields are the function \<open>props\<close> from the field's name, and each
  sequence of blocks is one recursion over \<open>question_properties\<close>, the fields in the order
  of the struct.
\<close>

datatype pname =
    ActivityStreamsActor | ActivityStreamsAltitude | ActivityStreamsAnyOf |
    ActivityStreamsAttachment | ActivityStreamsAttributedTo | ActivityStreamsAudience |
    ActivityStreamsBcc | ActivityStreamsBto | ActivityStreamsCc | ActivityStreamsClosed |
    ActivityStreamsContent | ActivityStreamsContext | ActivityStreamsDuration |
    ActivityStreamsEndTime | ActivityStreamsGenerator | ActivityStreamsIcon |
    ActivityStreamsId | ActivityStreamsImage | ActivityStreamsInReplyTo |
    ActivityStreamsInstrument | ActivityStreamsLikes | ActivityStreamsLocation |
    ActivityStreamsMediaType | ActivityStreamsName | ActivityStreamsOneOf |
    ActivityStreamsOrigin | ActivityStreamsPreview | ActivityStreamsPublished |
    ActivityStreamsReplies | ActivityStreamsResult | ActivityStreamsShares |
    ActivityStreamsStartTime | ActivityStreamsSummary | ActivityStreamsTag |
    ActivityStreamsTarget | ActivityStreamsTo | ActivityStreamsType |
    ActivityStreamsUpdated | ActivityStreamsUrl

definition question_properties :: "pname list" where
  "question_properties =
     [ActivityStreamsActor, ActivityStreamsAltitude, ActivityStreamsAnyOf,
      ActivityStreamsAttachment, ActivityStreamsAttributedTo, ActivityStreamsAudience,
      ActivityStreamsBcc, ActivityStreamsBto, ActivityStreamsCc, ActivityStreamsClosed,
      ActivityStreamsContent, ActivityStreamsContext, ActivityStreamsDuration,
      ActivityStreamsEndTime, ActivityStreamsGenerator, ActivityStreamsIcon,
      ActivityStreamsId, ActivityStreamsImage, ActivityStreamsInReplyTo,
      ActivityStreamsInstrument, ActivityStreamsLikes, ActivityStreamsLocation,
      ActivityStreamsMediaType, ActivityStreamsName, ActivityStreamsOneOf,
      ActivityStreamsOrigin, ActivityStreamsPreview, ActivityStreamsPublished,
      ActivityStreamsReplies, ActivityStreamsResult, ActivityStreamsShares,
      ActivityStreamsStartTime, ActivityStreamsSummary, ActivityStreamsTag,
      ActivityStreamsTarget, ActivityStreamsTo, ActivityStreamsType,
      ActivityStreamsUpdated, ActivityStreamsUrl]"

record 'p ActivityStreamsQuestion =
  props :: "pname \<Rightarrow> 'p option"
  question_alias :: string
  question_unknown :: "string \<Rightarrow> json option"

text \<open>
  The methods the code calls on a property value (\<^verbatim>\<open>vocab.ActivityStreamsActorProperty\<close>
  and its 38 siblings), implemented outside this file.
\<close>

record 'p property_methods =
  LessThan_of :: "'p \<Rightarrow> 'p \<Rightarrow> bool"
  Name_of :: "'p \<Rightarrow> string"
  Serialize_property :: "'p \<Rightarrow> error + json"
  JSONLDContext_property :: "'p \<Rightarrow> string \<Rightarrow> string option"

text \<open>\<^verbatim>\<open>strings.TrimPrefix\<close>.\<close>

definition TrimPrefix :: "string \<Rightarrow> string \<Rightarrow> string" where
  "TrimPrefix s prefix =
     (if take (length prefix) s = prefix then drop (length prefix) s else s)"

text \<open>
  The loop over the array of types (source lines 117 to 122): \<open>True\<close> when \<^verbatim>\<open>found\<close> is
  set.
\<close>

fun find_Question :: "json list \<Rightarrow> string \<Rightarrow> bool" where
  "find_Question [] aliasPrefix = False"
| "find_Question (elemVal # arrType) aliasPrefix =
     (case elemVal of
        JStr typeString \<Rightarrow>
          if TrimPrefix typeString aliasPrefix = ''Question'' then True
          else find_Question arrType aliasPrefix
      | _ \<Rightarrow> find_Question arrType aliasPrefix)"

text \<open>
  The check of the \<^verbatim>\<open>"type"\<close> key (source lines 107 to 129): \<open>Some err\<close> is
  \<^verbatim>\<open>return nil, err\<close>, \<open>None\<close> the fall through to the properties.
\<close>

definition check_type :: "(string \<Rightarrow> json option) \<Rightarrow> string \<Rightarrow> error option" where
  "check_type m aliasPrefix =
     (case m ''type'' of
        None \<Rightarrow> Some NoTypeProperty
      | Some typeValue \<Rightarrow>
          (case typeValue of
             JStr typeString \<Rightarrow>
               (let typeName = TrimPrefix typeString aliasPrefix
                in if typeName \<noteq> ''Question'' then Some (TypeNotOf typeName) else None)
           | JArr arrType \<Rightarrow>
               if \<not> find_Question arrType aliasPrefix then Some TypeNotFound else None
           | _ \<Rightarrow> Some TypeUnrecognized))"

text \<open>
  The known properties (source lines 130 to 325). \<open>D n\<close> is the registry's deserializer of
  property \<open>n\<close>, for instance \<^verbatim>\<open>mgr.DeserializeActorPropertyActivityStreams()\<close>.
\<close>

fun deserialize_known ::
  "(pname \<Rightarrow> 'p deserializer) \<Rightarrow> pname list \<Rightarrow> (string \<Rightarrow> json option)
     \<Rightarrow> (string \<Rightarrow> string option) \<Rightarrow> 'p ActivityStreamsQuestion
     \<Rightarrow> error + 'p ActivityStreamsQuestion" where
  "deserialize_known D [] m aliasMap this = Inr this"
| "deserialize_known D (n # ns) m aliasMap this =
     (case D n m aliasMap of
        Inl err \<Rightarrow> Inl err
      | Inr p \<Rightarrow>
          deserialize_known D ns m aliasMap
            (if p \<noteq> None then this \<lparr> props := (props this) (n := p) \<rparr> else this))"

text \<open>The names the loop over the input skips (source lines 331 to 414).\<close>

definition known_property_names :: "string list" where
  "known_property_names =
     [''actor'', ''altitude'', ''anyOf'', ''attachment'', ''attributedTo'', ''audience'',
      ''bcc'', ''bto'', ''cc'', ''closed'', ''content'', ''contentMap'', ''context'',
      ''duration'', ''endTime'', ''generator'', ''icon'', ''id'', ''image'', ''inReplyTo'',
      ''instrument'', ''likes'', ''location'', ''mediaType'', ''name'', ''nameMap'',
      ''oneOf'', ''origin'', ''preview'', ''published'', ''replies'', ''result'',
      ''shares'', ''startTime'', ''summary'', ''summaryMap'', ''tag'', ''target'', ''to'',
      ''type'', ''updated'', ''url'']"

text \<open>
  The loop \<^verbatim>\<open>for k, v := range m\<close> with \<^verbatim>\<open>this.unknown[k] = v\<close> for every key that is not
  skipped. It visits each key of \<open>m\<close> once, so in any order it leaves in \<open>u\<close> the entry of
  \<open>m\<close> at every key it does not skip, and the old entry of \<open>u\<close> elsewhere.
\<close>

definition collect_unknown ::
  "(string \<Rightarrow> json option) \<Rightarrow> (string \<Rightarrow> json option) \<Rightarrow> string \<Rightarrow> json option" where
  "collect_unknown m u =
     (\<lambda>k. if k \<in> set known_property_names then u k
          else (case m k of Some v \<Rightarrow> Some v | None \<Rightarrow> u k))"

definition DeserializeQuestion ::
  "(pname \<Rightarrow> 'p deserializer) \<Rightarrow> (string \<Rightarrow> json option) \<Rightarrow> (string \<Rightarrow> string option)
     \<Rightarrow> error + 'p ActivityStreamsQuestion" where
  "DeserializeQuestion D m aliasMap =
     (let a = alias_of aliasMap;
          aliasPrefix = aliasPrefix_of aliasMap;
          this = \<lparr> props = (\<lambda>n. None), question_alias = a, question_unknown = Map.empty \<rparr>
      in case check_type m aliasPrefix of
           Some err \<Rightarrow> Inl err
         | None \<Rightarrow>
             (case deserialize_known D question_properties m aliasMap this of
                Inl err \<Rightarrow> Inl err
              | Inr this' \<Rightarrow>
                  Inr (this' \<lparr> question_unknown := collect_unknown m (question_unknown this') \<rparr>)))"

definition GetUnknownProperties :: "'p ActivityStreamsQuestion \<Rightarrow> string \<Rightarrow> json option" where
  "GetUnknownProperties this = question_unknown this"

text \<open>
  \<^verbatim>\<open>LessThan\<close> of the Question (source lines 765 to 1324). One block of the source is one
  step of \<open>compare_known\<close>, with its three tests as they are written: both sides non nil;
  \<^verbatim>\<open>lhs == nil && rhs != nil\<close>; \<^verbatim>\<open>rhs != nil && rhs == nil\<close>. \<open>Some b\<close> is \<^verbatim>\<open>return b\<close> and
  \<open>None\<close> the fall through to what follows the last block.
\<close>

fun compare_known ::
  "'p property_methods \<Rightarrow> pname list \<Rightarrow> 'p ActivityStreamsQuestion
     \<Rightarrow> 'p ActivityStreamsQuestion \<Rightarrow> bool option" where
  "compare_known P [] this other = None"
| "compare_known P (n # ns) this other =
     (let lhs = props this n; rhs = props other n
      in if lhs \<noteq> None \<and> rhs \<noteq> None then
           (if LessThan_of P (the lhs) (the rhs) then Some True
            else if LessThan_of P (the rhs) (the lhs) then Some False
            else compare_known P ns this other)
         else if lhs = None \<and> rhs \<noteq> None then Some True
         else if rhs \<noteq> None \<and> rhs = None then Some False
         else compare_known P ns this other)"

text \<open>\<^verbatim>\<open>len\<close> of a map is the number of its keys.\<close>

definition Question_LessThan ::
  "'p property_methods \<Rightarrow> 'p ActivityStreamsQuestion \<Rightarrow> 'p ActivityStreamsQuestion \<Rightarrow> bool" where
  "Question_LessThan P this other =
     (case compare_known P question_properties this other of
        Some b \<Rightarrow> b
      | None \<Rightarrow>
          if card (dom (question_unknown this)) < card (dom (GetUnknownProperties other))
            then True
          else if card (dom (GetUnknownProperties other)) < card (dom (question_unknown this))
            then False
          else False)"

text \<open>
  \<^verbatim>\<open>Serialize\<close> of the Question (source lines 1328 to 1660). The known properties first:
  a nil field is skipped, an error of the property's \<^verbatim>\<open>Serialize\<close> is returned, a nil
  result is not stored.
\<close>

fun serialize_known ::
  "'p property_methods \<Rightarrow> pname list \<Rightarrow> 'p ActivityStreamsQuestion
     \<Rightarrow> (string \<Rightarrow> json option) \<Rightarrow> error + (string \<Rightarrow> json option)" where
  "serialize_known P [] this m = Inr m"
| "serialize_known P (n # ns) this m =
     (case props this n of
        None \<Rightarrow> serialize_known P ns this m
      | Some p \<Rightarrow>
          (case Serialize_property P p of
             Inl err \<Rightarrow> Inl err
           | Inr i \<Rightarrow>
               serialize_known P ns this (if i \<noteq> JNil then m (Name_of P p \<mapsto> i) else m)))"

text \<open>
  The loop over \<^verbatim>\<open>this.unknown\<close> (source lines 1650 to 1657): an entry is stored only
  when \<open>m\<close> has no entry at its key. Each key is visited once, so the result does not depend
  on the order.
\<close>

definition merge_unknown ::
  "(string \<Rightarrow> json option) \<Rightarrow> (string \<Rightarrow> json option) \<Rightarrow> string \<Rightarrow> json option" where
  "merge_unknown u m = (\<lambda>k. case m k of Some i \<Rightarrow> Some i | None \<Rightarrow> u k)"

text \<open>The map after the type name and the known properties, before the unknown ones.\<close>

definition Question_Serialize_known ::
  "'p property_methods \<Rightarrow> 'p ActivityStreamsQuestion \<Rightarrow> error + (string \<Rightarrow> json option)" where
  "Question_Serialize_known P this =
     (let typeName = (if length (question_alias this) > 0
                      then question_alias this @ '':'' @ ''Question'' else ''Question'');
          m = Map.empty (''type'' \<mapsto> JStr typeName)
      in serialize_known P question_properties this m)"

definition Question_Serialize ::
  "'p property_methods \<Rightarrow> 'p ActivityStreamsQuestion \<Rightarrow> error + (string \<Rightarrow> json option)" where
  "Question_Serialize P this =
     (case Question_Serialize_known P this of
        Inl err \<Rightarrow> Inl err
      | Inr m \<Rightarrow> Inr (merge_unknown (question_unknown this) m))"

text \<open>
  \<^verbatim>\<open>helperJSONLDContext\<close> and the \<^verbatim>\<open>JSONLDContext\<close> of the Question: the loop assigns
  \<^verbatim>\<open>toMerge[k] = v\<close> for every entry of the property's context.
\<close>

definition helperJSONLDContext ::
  "'p property_methods \<Rightarrow> 'p option \<Rightarrow> (string \<Rightarrow> string option) \<Rightarrow> string \<Rightarrow> string option" where
  "helperJSONLDContext P i toMerge =
     (case i of None \<Rightarrow> toMerge | Some p \<Rightarrow> toMerge ++ JSONLDContext_property P p)"

definition Question_JSONLDContext ::
  "'p property_methods \<Rightarrow> 'p ActivityStreamsQuestion \<Rightarrow> string \<Rightarrow> string option" where
  "Question_JSONLDContext P this =
     foldl (\<lambda>m n. helperJSONLDContext P (props this n) m)
       (Map.empty (vocabularyURI \<mapsto> question_alias this)) question_properties"

section \<open>The claims' own words, and collaborators to run the code on\<close>

text \<open>
  "A schemed-IRI string": a string that \<^verbatim>\<open>url.Parse\<close> parses without error into a URL
  with a non-empty scheme.
\<close>

definition schemed_IRI_string :: "(string \<Rightarrow> error + URL) \<Rightarrow> json \<Rightarrow> bool" where
  "schemed_IRI_string url_Parse i =
     (case i of
        JStr s \<Rightarrow> (case url_Parse s of Inr u \<Rightarrow> Scheme u \<noteq> [] | Inl err \<Rightarrow> False)
      | _ \<Rightarrow> False)"

text \<open>"A map accepted by some candidate deserializer".\<close>

definition accepted_map ::
  "'v deserializer list \<Rightarrow> (string \<Rightarrow> string option) \<Rightarrow> json \<Rightarrow> bool" where
  "accepted_map candidates aliasMap i =
     (case i of
        JObj m \<Rightarrow> (\<exists>d \<in> set candidates. \<not> isl (d m aliasMap))
      | _ \<Rightarrow> False)"

text \<open>
  When \<^verbatim>\<open>DeserializeQuestion\<close> is to fail on the type: the \<^verbatim>\<open>"type"\<close> key is missing, or
  is a string that is not \<^verbatim>\<open>"Question"\<close> after the alias prefix is stripped, or is an array
  with no element that is such a string, or is neither a string nor an array.
\<close>

fun stripped :: "string \<Rightarrow> json \<Rightarrow> json" where
  "stripped aliasPrefix (JStr s) = JStr (TrimPrefix s aliasPrefix)"
| "stripped aliasPrefix v = v"

definition type_rejected :: "(string \<Rightarrow> json option) \<Rightarrow> string \<Rightarrow> bool" where
  "type_rejected m aliasPrefix =
     (case m ''type'' of
        None \<Rightarrow> True
      | Some (JStr s) \<Rightarrow> TrimPrefix s aliasPrefix \<noteq> ''Question''
      | Some (JArr xs) \<Rightarrow> JStr ''Question'' \<notin> set (map (stripped aliasPrefix) xs)
      | Some v \<Rightarrow> True)"

text \<open>"Deserializing the property and then calling Serialize()".\<close>

definition deserialize_then_Serialize ::
  "(string \<Rightarrow> error + URL) \<Rightarrow> (URL \<Rightarrow> string) \<Rightarrow> 'v manager \<Rightarrow> 'v vocab_Type
     \<Rightarrow> (string \<Rightarrow> json option) \<Rightarrow> (string \<Rightarrow> string option) \<Rightarrow> (error + json) option" where
  "deserialize_then_Serialize url_Parse url_String mgr V m aliasMap =
     (case DeserializePartOfProperty url_Parse mgr m aliasMap of
        Inr (Some this) \<Rightarrow> Some (Serialize V url_String this)
      | _ \<Rightarrow> None)"

text \<open>
  A registry to run the properties on. Its values are the names of their types. Its Link
  deserializer accepts a map with an \<^verbatim>\<open>href\<close>, its Collection and OrderedCollection
  deserializers both accept a map with \<^verbatim>\<open>totalItems\<close>, and the others accept nothing.
\<close>

definition sample_mgr :: "string manager" where
  "sample_mgr =
     \<lparr> DeserializeLinkActivityStreams =
         (\<lambda>m aliasMap. if m ''href'' \<noteq> None then Inr (Some ''Link'')
                        else Inl (Failure ''not a Link'')),
       DeserializeCollectionActivityStreams =
         (\<lambda>m aliasMap. if m ''totalItems'' \<noteq> None then Inr (Some ''Collection'')
                        else Inl (Failure ''not a Collection'')),
       DeserializeCollectionPageActivityStreams =
         (\<lambda>m aliasMap. Inl (Failure ''not a CollectionPage'')),
       DeserializeMentionActivityStreams =
         (\<lambda>m aliasMap. Inl (Failure ''not a Mention'')),
       DeserializeOrderedCollectionActivityStreams =
         (\<lambda>m aliasMap. if m ''totalItems'' \<noteq> None then Inr (Some ''OrderedCollection'')
                        else Inl (Failure ''not an OrderedCollection'')),
       DeserializeOrderedCollectionPageActivityStreams =
         (\<lambda>m aliasMap. Inl (Failure ''not an OrderedCollectionPage'')) \<rparr>"

text \<open>
  Values whose context imports the vocabulary under the alias \<^verbatim>\<open>as\<close>, as a value that was
  deserialized under that alias does, and that serialize to a map with their type.
\<close>

definition sample_V :: "string vocab_Type" where
  "sample_V =
     \<lparr> JSONLDContext_of = (\<lambda>v. Map.empty (vocabularyURI \<mapsto> ''as'')),
       Serialize_of = (\<lambda>v. Inr (Map.empty (''type'' \<mapsto> JStr v))) \<rparr>"

text \<open>
  Properties of a Question to run it on: a property is a pair of its name and a number,
  compared by the number and serialized to it.
\<close>

definition sample_P :: "(string \<times> int) property_methods" where
  "sample_P =
     \<lparr> LessThan_of = (\<lambda>p q. snd p < snd q),
       Name_of = fst,
       Serialize_property = (\<lambda>p. Inr (JNum (snd p))),
       JSONLDContext_property = (\<lambda>p. Map.empty (vocabularyURI \<mapsto> [])) \<rparr>"

text \<open>A registry of property deserializers that finds no property in any map.\<close>

definition sample_D :: "pname \<Rightarrow> (string \<times> int) deserializer" where
  "sample_D n = (\<lambda>m aliasMap. Inr None)"

text \<open>
  A registry whose \<^verbatim>\<open>actor\<close> deserializer looks the property up under its key (qualified
  by the alias): it reads a list of actors and keeps the key and the number of actors,
  returns an error for any other value and nil when the key is absent. The other
  deserializers find no property.
\<close>

definition sample_actor_D :: "pname \<Rightarrow> (string \<times> int) deserializer" where
  "sample_actor_D n =
     (\<lambda>m aliasMap.
        if n = ActivityStreamsActor then
          (case m (propName_of (alias_of aliasMap) ''actor'') of
             None \<Rightarrow> Inr None
           | Some (JArr xs) \<Rightarrow>
               Inr (Some (propName_of (alias_of aliasMap) ''actor'', int (length xs)))
           | Some v \<Rightarrow> Inl (Failure ''actor is not a list''))
        else Inr None)"

text \<open>
  "An already-emitted known key": some property of the list is set, has the name \<open>k\<close> and
  serializes without error to the non-nil value \<open>i\<close>, which \<^verbatim>\<open>Serialize\<close> stores at \<open>k\<close>.
\<close>

definition known_emits ::
  "'p property_methods \<Rightarrow> 'p ActivityStreamsQuestion \<Rightarrow> pname list \<Rightarrow> string \<Rightarrow> json \<Rightarrow> bool" where
  "known_emits P this ns k i =
     (\<exists>n \<in> set ns.
        case props this n of
          None \<Rightarrow> False
        | Some p \<Rightarrow> Name_of P p = k \<and> Serialize_property P p = Inr i \<and> i \<noteq> JNil)"

definition bare_Question :: "(string \<times> int) ActivityStreamsQuestion" where
  "bare_Question = \<lparr> props = (\<lambda>n. None), question_alias = [], question_unknown = Map.empty \<rparr>"

section \<open>Helper facts\<close>

lemmas Is_defs = IsActivityStreamsLink_def IsActivityStreamsCollection_def
  IsActivityStreamsCollectionPage_def IsActivityStreamsMention_def
  IsActivityStreamsOrderedCollection_def IsActivityStreamsOrderedCollectionPage_def IsIRI_def

lemma run_calls_snoc: "run_calls (cs @ [c]) this = run_call c (run_calls cs this)"
  by (induction cs arbitrary: this) simp_all

lemma run_call_answers:
  "count_true (Is_answers (run_call c this)) \<le> 1 \<and>
   (call_arg_not_nil c \<longrightarrow> count_true (Is_answers (run_call c this)) = 1 \<and> Is_of_call c (run_call c this))"
  by (cases c)
     (auto simp: count_true_def Is_answers_def Is_defs Clear_def
        SetActivityStreamsLink_def SetActivityStreamsCollection_def
        SetActivityStreamsCollectionPage_def SetActivityStreamsMention_def
        SetActivityStreamsOrderedCollection_def SetActivityStreamsOrderedCollectionPage_def
        SetIRI_def)

lemma JSONLDContext_GetType:
  "JSONLDContext V this =
     (case GetType this of
        Some v \<Rightarrow> Map.empty (vocabularyURI \<mapsto> alias this) ++ JSONLDContext_of V v
      | None \<Rightarrow> Map.empty (vocabularyURI \<mapsto> alias this))"
  by (auto simp: JSONLDContext_def GetType_def Is_defs Let_def)

lemma JSONLDContext_entries:
  "(GetType this = None \<longrightarrow> JSONLDContext V this = Map.empty (vocabularyURI \<mapsto> alias this)) \<and>
   (\<forall>v. GetType this = Some v \<longrightarrow>
      (\<forall>k a. JSONLDContext_of V v k = Some a \<longrightarrow> JSONLDContext V this k = Some a) \<and>
      (JSONLDContext_of V v vocabularyURI = None \<or>
       JSONLDContext_of V v vocabularyURI = Some (alias this)
         \<longrightarrow> JSONLDContext V this vocabularyURI = Some (alias this)) \<and>
      (\<forall>k. k \<noteq> vocabularyURI \<and> JSONLDContext_of V v k = None
         \<longrightarrow> JSONLDContext V this k = None))"
  by (auto simp: JSONLDContext_GetType map_add_def split: option.splits)

lemma helperJSONLDContext_assigns:
  "helperJSONLDContext P (Some p) toMerge k =
     (case JSONLDContext_property P p k of Some a \<Rightarrow> Some a | None \<Rightarrow> toMerge k)"
  by (simp add: helperJSONLDContext_def map_add_def)

lemma partOf_map_branch_first:
  "partOf_map_branch mgr a aliasMap (JObj mm) =
     map_option (\<lambda>(k, v). partOf_holding a k v) (first_success (partOf_candidates mgr) mm aliasMap)"
  by (simp add: partOf_map_branch_def partOf_candidates_def partOf_holding_def split: sum.splits)

lemma liked_map_branch_first:
  "liked_map_branch mgr a aliasMap (JObj mm) =
     map_option (\<lambda>(k, v). liked_holding a k v) (first_success (liked_candidates mgr) mm aliasMap)"
  by (simp add: liked_map_branch_def liked_candidates_def liked_holding_def split: sum.splits)

lemma string_branch_JObj:
  "partOf_string_branch url_Parse a (JObj mm) = None"
  "liked_string_branch url_Parse a (JObj mm) = None"
  by (simp_all add: partOf_string_branch_def liked_string_branch_def)

lemma string_branch_JStr:
  "partOf_map_branch mgr a aliasMap (JStr s) = None"
  "liked_map_branch mgr a aliasMap (JStr s) = None"
  by (simp_all add: partOf_map_branch_def liked_map_branch_def)

lemma net_url_Parse_https: "net_url_Parse ''https://ex.example/x'' = Inr \<lparr> Scheme = ''https'', Remainder = ''//ex.example/x'' \<rparr>"
  by (simp add: net_url_Parse_def getScheme_def is_letter_def is_scheme_punct_def ToLower_char_def)

lemma net_url_Parse_HTTPS: "net_url_Parse ''HTTPS://ex.example/x'' = Inr \<lparr> Scheme = ''https'', Remainder = ''//ex.example/x'' \<rparr>"
  by (simp add: net_url_Parse_def getScheme_def is_letter_def is_scheme_punct_def ToLower_char_def)

lemma net_url_Parse_bare: "net_url_Parse ''notes.txt'' = Inr \<lparr> Scheme = [], Remainder = ''notes.txt'' \<rparr>"
  by (simp add: net_url_Parse_def getScheme_def is_letter_def is_scheme_punct_def ToLower_char_def)

lemma partOf_map_branch_None:
  "\<not> accepted_map (partOf_candidates mgr) aliasMap i \<Longrightarrow> partOf_map_branch mgr a aliasMap i = None"
  by (cases i)
     (auto simp: accepted_map_def partOf_map_branch_def partOf_candidates_def split: sum.splits)

lemma partOf_string_branch_None:
  "\<not> schemed_IRI_string url_Parse i \<Longrightarrow> partOf_string_branch url_Parse a i = None"
  by (cases i) (auto simp: schemed_IRI_string_def partOf_string_branch_def split: sum.splits)

section \<open>The claims about the properties\<close>

text \<open>
  Claim C1, as amended. After a non-empty sequence of \<^verbatim>\<open>Set\<close> calls on a partOf property,
  whatever state it started in, at most one of the seven \<^verbatim>\<open>Is\<close> methods (\<^verbatim>\<open>IsIRI\<close>
  included) returns true; when the argument of the last call is not nil, exactly one
  does, and it is the one that belongs to the last call.
\<close>

theorem Set_calls_exclusive:
  assumes "cs \<noteq> []"
  shows "count_true (Is_answers (run_calls cs this)) \<le> 1 \<and>
         (call_arg_not_nil (last cs) \<longrightarrow>
            count_true (Is_answers (run_calls cs this)) = 1 \<and>
            Is_of_call (last cs) (run_calls cs this))"
proof -
  from assms have "cs = butlast cs @ [last cs]" by simp
  then have "run_calls cs this = run_call (last cs) (run_calls (butlast cs) this)"
    using run_calls_snoc [of "butlast cs" "last cs" this] by simp
  then show ?thesis
    using run_call_answers [of "last cs" "run_calls (butlast cs) this"] by simp
qed

theorem Set_calls_exclusive_witness:
  "count_true (Is_answers (run_calls
      [CallSetIRI (Some \<lparr> Scheme = ''https'', Remainder = ''//ex.example/x'' \<rparr>),
       CallSetActivityStreamsCollection (Some ''Collection'')]
      NewActivityStreamsPartOfProperty)) = 1 \<and>
   IsActivityStreamsCollection (run_calls
      [CallSetIRI (Some \<lparr> Scheme = ''https'', Remainder = ''//ex.example/x'' \<rparr>),
       CallSetActivityStreamsCollection (Some ''Collection'')]
      NewActivityStreamsPartOfProperty)"
  using Set_calls_exclusive [of
      "[CallSetIRI (Some \<lparr> Scheme = ''https'', Remainder = ''//ex.example/x'' \<rparr>),
       CallSetActivityStreamsCollection (Some ''Collection'')]"
      NewActivityStreamsPartOfProperty]
  by simp

text \<open>
  The claim as it is stated fails where the last call passes nil: after
  \<^verbatim>\<open>SetActivityStreamsLink(link)\<close> and \<^verbatim>\<open>SetIRI(nil)\<close> no \<^verbatim>\<open>Is\<close> method returns true.
\<close>

theorem Set_nil_counterexample:
  "count_true (Is_answers (run_calls [CallSetActivityStreamsLink (Some ()), CallSetIRI None]
      NewActivityStreamsPartOfProperty)) = 0"
  by (simp add: count_true_def Is_answers_def Is_defs Clear_def
        SetActivityStreamsLink_def SetIRI_def NewActivityStreamsPartOfProperty_def)

text \<open>
  Claim C2 says that \<^verbatim>\<open>JSONLDContext()\<close> contains the entry from the vocabulary's URI to
  the property's alias and merges the context of the value it holds without overwriting
  a key that is already present, and the comment on the merge loop says the same ("this
  loop should not overwrite an existing key with a new value"). The loop is the plain
  assignment \<^verbatim>\<open>m[k] = v\<close>: a property created with the empty alias and set to a Link whose
  context imports the vocabulary as \<^verbatim>\<open>as\<close> returns the Link's entry in place of its own.
\<close>

theorem JSONLDContext_overwrites:
  "JSONLDContext sample_V
     (SetActivityStreamsLink (Some ''Link'') NewActivityStreamsPartOfProperty) vocabularyURI
     = Some ''as'' \<and>
   alias (SetActivityStreamsLink (Some ''Link'') (NewActivityStreamsPartOfProperty :: string ActivityStreamsPartOfProperty)) = []"
  by (simp add: JSONLDContext_def sample_V_def SetActivityStreamsLink_def Clear_def
      NewActivityStreamsPartOfProperty_def Is_defs)

text \<open>
  Claim C4. When the key of the property (qualified by the alias, if there is one) holds
  a nested map, \<^verbatim>\<open>DeserializePartOfProperty\<close> and \<^verbatim>\<open>DeserializeLikedProperty\<close> return the
  property that holds the value of the first candidate deserializer, in the declared
  order, that returns no error (and the raw map as unknown when all of them fail). In
  particular a map that both the OrderedCollection and the Collection deserializer
  accept makes the liked property an OrderedCollection.
\<close>

theorem map_dispatch_first_declared:
  fixes mgr :: "'v manager"
  shows
  "(m (propName_of (alias_of aliasMap) ''partOf'') = Some (JObj mm) \<longrightarrow>
      DeserializePartOfProperty url_Parse mgr m aliasMap =
        Inr (Some (case first_success (partOf_candidates mgr) mm aliasMap of
                     Some (k, v) \<Rightarrow> partOf_holding (alias_of aliasMap) k v
                   | None \<Rightarrow> NewActivityStreamsPartOfProperty
                               \<lparr> unknown := JObj mm, alias := alias_of aliasMap \<rparr>))) \<and>
   (m (propName_of (alias_of aliasMap) ''liked'') = Some (JObj mm) \<longrightarrow>
      DeserializeLikedProperty url_Parse mgr m aliasMap =
        Inr (Some (case first_success (liked_candidates mgr) mm aliasMap of
                     Some (k, v) \<Rightarrow> liked_holding (alias_of aliasMap) k v
                   | None \<Rightarrow> NewActivityStreamsLikedProperty
                               \<lparr> liked_unknown := JObj mm, liked_alias := alias_of aliasMap \<rparr>))) \<and>
   (m (propName_of (alias_of aliasMap) ''liked'') = Some (JObj mm) \<and>
    DeserializeOrderedCollectionActivityStreams mgr mm aliasMap = Inr v \<and>
    DeserializeCollectionActivityStreams mgr mm aliasMap = Inr w \<longrightarrow>
      DeserializeLikedProperty url_Parse mgr m aliasMap =
        Inr (Some (NewActivityStreamsLikedProperty
               \<lparr> liked_activitystreamsOrderedCollectionMember := v,
                 liked_alias := alias_of aliasMap \<rparr>)))"
proof (intro conjI impI)
  assume "m (propName_of (alias_of aliasMap) ''partOf'') = Some (JObj mm)"
  then show "DeserializePartOfProperty url_Parse mgr m aliasMap =
        Inr (Some (case first_success (partOf_candidates mgr) mm aliasMap of
                     Some (k, v) \<Rightarrow> partOf_holding (alias_of aliasMap) k v
                   | None \<Rightarrow> NewActivityStreamsPartOfProperty
                               \<lparr> unknown := JObj mm, alias := alias_of aliasMap \<rparr>))"
    by (simp add: DeserializePartOfProperty_def Let_def string_branch_JObj
        partOf_map_branch_first split: option.splits)
next
  assume "m (propName_of (alias_of aliasMap) ''liked'') = Some (JObj mm)"
  then show "DeserializeLikedProperty url_Parse mgr m aliasMap =
        Inr (Some (case first_success (liked_candidates mgr) mm aliasMap of
                     Some (k, v) \<Rightarrow> liked_holding (alias_of aliasMap) k v
                   | None \<Rightarrow> NewActivityStreamsLikedProperty
                               \<lparr> liked_unknown := JObj mm, liked_alias := alias_of aliasMap \<rparr>))"
    by (simp add: DeserializeLikedProperty_def Let_def string_branch_JObj
        liked_map_branch_first split: option.splits)
next
  assume "m (propName_of (alias_of aliasMap) ''liked'') = Some (JObj mm) \<and>
    DeserializeOrderedCollectionActivityStreams mgr mm aliasMap = Inr v \<and>
    DeserializeCollectionActivityStreams mgr mm aliasMap = Inr w"
  then show "DeserializeLikedProperty url_Parse mgr m aliasMap =
        Inr (Some (NewActivityStreamsLikedProperty
               \<lparr> liked_activitystreamsOrderedCollectionMember := v,
                 liked_alias := alias_of aliasMap \<rparr>))"
    by (simp add: DeserializeLikedProperty_def Let_def string_branch_JObj
        liked_map_branch_def)
qed

theorem map_dispatch_first_declared_witness:
  "DeserializePartOfProperty net_url_Parse sample_mgr
     (Map.empty (''partOf'' \<mapsto> JObj (Map.empty (''totalItems'' \<mapsto> JNum 5)),
                 ''liked'' \<mapsto> JObj (Map.empty (''totalItems'' \<mapsto> JNum 5)))) Map.empty =
     Inr (Some (NewActivityStreamsPartOfProperty
                  \<lparr> activitystreamsCollectionMember := Some ''Collection'', alias := [] \<rparr>)) \<and>
   DeserializeLikedProperty net_url_Parse sample_mgr
     (Map.empty (''partOf'' \<mapsto> JObj (Map.empty (''totalItems'' \<mapsto> JNum 5)),
                 ''liked'' \<mapsto> JObj (Map.empty (''totalItems'' \<mapsto> JNum 5)))) Map.empty =
     Inr (Some (NewActivityStreamsLikedProperty
                  \<lparr> liked_activitystreamsOrderedCollectionMember := Some ''OrderedCollection'',
                    liked_alias := [] \<rparr>))"
  using map_dispatch_first_declared [where mgr = sample_mgr and url_Parse = net_url_Parse
      and aliasMap = Map.empty and mm = "Map.empty (''totalItems'' \<mapsto> JNum 5)"
      and v = "Some ''OrderedCollection''" and w = "Some ''Collection''"
      and m = "Map.empty (''partOf'' \<mapsto> JObj (Map.empty (''totalItems'' \<mapsto> JNum 5)),
                 ''liked'' \<mapsto> JObj (Map.empty (''totalItems'' \<mapsto> JNum 5)))"]
  by (simp add: propName_of_def alias_of_def sample_mgr_def partOf_candidates_def
      liked_candidates_def partOf_holding_def liked_holding_def)

text \<open>
  Claim C5. When the key of the property holds a string \<open>s\<close>, the deserialized property
  is an IRI if and only if \<^verbatim>\<open>url.Parse\<close> of \<open>s\<close> returns no error and a URL with a non-empty
  scheme, and then it stores that URL; otherwise \<open>s\<close> is stored as the unknown value. This
  holds for partOf and for liked.
\<close>

theorem string_is_IRI_iff_schemed:
  fixes mgr :: "'v manager"
  shows
  "(m (propName_of (alias_of aliasMap) ''partOf'') = Some (JStr s) \<longrightarrow>
      (\<exists>p. DeserializePartOfProperty url_Parse mgr m aliasMap = Inr (Some p) \<and>
           (IsIRI p \<longleftrightarrow> (\<exists>u. url_Parse s = Inr u \<and> Scheme u \<noteq> [])) \<and>
           (\<forall>u. url_Parse s = Inr u \<and> Scheme u \<noteq> [] \<longrightarrow> iri p = Some u) \<and>
           (\<not> IsIRI p \<longrightarrow> unknown p = JStr s))) \<and>
   (m (propName_of (alias_of aliasMap) ''liked'') = Some (JStr s) \<longrightarrow>
      (\<exists>p. DeserializeLikedProperty url_Parse mgr m aliasMap = Inr (Some p) \<and>
           (Liked_IsIRI p \<longleftrightarrow> (\<exists>u. url_Parse s = Inr u \<and> Scheme u \<noteq> [])) \<and>
           (\<forall>u. url_Parse s = Inr u \<and> Scheme u \<noteq> [] \<longrightarrow> liked_iri p = Some u) \<and>
           (\<not> Liked_IsIRI p \<longrightarrow> liked_unknown p = JStr s)))"
proof (intro conjI impI)
  assume h: "m (propName_of (alias_of aliasMap) ''partOf'') = Some (JStr s)"
  show "\<exists>p. DeserializePartOfProperty url_Parse mgr m aliasMap = Inr (Some p) \<and>
           (IsIRI p \<longleftrightarrow> (\<exists>u. url_Parse s = Inr u \<and> Scheme u \<noteq> [])) \<and>
           (\<forall>u. url_Parse s = Inr u \<and> Scheme u \<noteq> [] \<longrightarrow> iri p = Some u) \<and>
           (\<not> IsIRI p \<longrightarrow> unknown p = JStr s)"
  proof (cases "url_Parse s")
    case (Inl err)
    with h show ?thesis
      by (simp add: DeserializePartOfProperty_def Let_def partOf_string_branch_def
          string_branch_JStr IsIRI_def NewActivityStreamsPartOfProperty_def)
  next
    case (Inr u)
    with h show ?thesis
      by (cases "Scheme u = []")
         (simp_all add: DeserializePartOfProperty_def Let_def partOf_string_branch_def
          string_branch_JStr IsIRI_def NewActivityStreamsPartOfProperty_def)
  qed
next
  assume h: "m (propName_of (alias_of aliasMap) ''liked'') = Some (JStr s)"
  show "\<exists>p. DeserializeLikedProperty url_Parse mgr m aliasMap = Inr (Some p) \<and>
           (Liked_IsIRI p \<longleftrightarrow> (\<exists>u. url_Parse s = Inr u \<and> Scheme u \<noteq> [])) \<and>
           (\<forall>u. url_Parse s = Inr u \<and> Scheme u \<noteq> [] \<longrightarrow> liked_iri p = Some u) \<and>
           (\<not> Liked_IsIRI p \<longrightarrow> liked_unknown p = JStr s)"
  proof (cases "url_Parse s")
    case (Inl err)
    with h show ?thesis
      by (simp add: DeserializeLikedProperty_def Let_def liked_string_branch_def
          string_branch_JStr Liked_IsIRI_def NewActivityStreamsLikedProperty_def)
  next
    case (Inr u)
    with h show ?thesis
      by (cases "Scheme u = []")
         (simp_all add: DeserializeLikedProperty_def Let_def liked_string_branch_def
          string_branch_JStr Liked_IsIRI_def NewActivityStreamsLikedProperty_def)
  qed
qed

theorem string_is_IRI_iff_schemed_witness:
  "(\<exists>p. DeserializePartOfProperty net_url_Parse sample_mgr
           (Map.empty (''partOf'' \<mapsto> JStr ''notes.txt'', ''liked'' \<mapsto> JStr ''notes.txt''))
           Map.empty = Inr (Some p) \<and> \<not> IsIRI p \<and> unknown p = JStr ''notes.txt'') \<and>
   (\<exists>p. DeserializeLikedProperty net_url_Parse sample_mgr
           (Map.empty (''partOf'' \<mapsto> JStr ''notes.txt'', ''liked'' \<mapsto> JStr ''notes.txt''))
           Map.empty = Inr (Some p) \<and> \<not> Liked_IsIRI p \<and> liked_unknown p = JStr ''notes.txt'')"
  using string_is_IRI_iff_schemed [where mgr = sample_mgr and url_Parse = net_url_Parse
      and aliasMap = Map.empty and s = "''notes.txt''"
      and m = "Map.empty (''partOf'' \<mapsto> JStr ''notes.txt'', ''liked'' \<mapsto> JStr ''notes.txt'')"]
  by (auto simp: propName_of_def alias_of_def net_url_Parse_bare)

text \<open>
  Claim C6. For every input map, alias map, \<^verbatim>\<open>url.Parse\<close> and registry,
  \<^verbatim>\<open>DeserializePartOfProperty\<close> returns no error; its result is nil exactly when the key of
  the property is absent from the input map; and when the key holds a value that is
  neither a schemed-IRI string nor a map that some candidate deserializer accepts, the
  result is the property that holds just this value as unknown.
\<close>

theorem DeserializePartOfProperty_no_error:
  fixes mgr :: "'v manager"
  shows
  "(\<exists>r. DeserializePartOfProperty url_Parse mgr m aliasMap = Inr r \<and>
        (r = None \<longleftrightarrow> m (propName_of (alias_of aliasMap) ''partOf'') = None)) \<and>
   (m (propName_of (alias_of aliasMap) ''partOf'') = Some i \<and>
    \<not> schemed_IRI_string url_Parse i \<and>
    \<not> accepted_map (partOf_candidates mgr) aliasMap i \<longrightarrow>
      DeserializePartOfProperty url_Parse mgr m aliasMap =
        Inr (Some (NewActivityStreamsPartOfProperty
                     \<lparr> unknown := i, alias := alias_of aliasMap \<rparr>)))"
proof (intro conjI impI)
  show "\<exists>r. DeserializePartOfProperty url_Parse mgr m aliasMap = Inr r \<and>
        (r = None \<longleftrightarrow> m (propName_of (alias_of aliasMap) ''partOf'') = None)"
    by (simp add: DeserializePartOfProperty_def Let_def split: option.splits)
next
  assume "m (propName_of (alias_of aliasMap) ''partOf'') = Some i \<and>
    \<not> schemed_IRI_string url_Parse i \<and>
    \<not> accepted_map (partOf_candidates mgr) aliasMap i"
  then show "DeserializePartOfProperty url_Parse mgr m aliasMap =
        Inr (Some (NewActivityStreamsPartOfProperty
                     \<lparr> unknown := i, alias := alias_of aliasMap \<rparr>))"
    by (simp add: DeserializePartOfProperty_def Let_def
        partOf_string_branch_None [of url_Parse i "alias_of aliasMap"]
        partOf_map_branch_None [of mgr aliasMap i "alias_of aliasMap"])
qed

theorem DeserializePartOfProperty_no_error_witness:
  "(\<exists>r. DeserializePartOfProperty net_url_Parse sample_mgr
           (Map.empty (''as:partOf'' \<mapsto> JObj (Map.empty (''name'' \<mapsto> JStr ''x''))))
           (Map.empty (vocabularyURI \<mapsto> ''as'')) = Inr r \<and> r \<noteq> None) \<and>
   DeserializePartOfProperty net_url_Parse sample_mgr
     (Map.empty (''as:partOf'' \<mapsto> JObj (Map.empty (''name'' \<mapsto> JStr ''x''))))
     (Map.empty (vocabularyURI \<mapsto> ''as'')) =
     Inr (Some (NewActivityStreamsPartOfProperty
                  \<lparr> unknown := JObj (Map.empty (''name'' \<mapsto> JStr ''x'')), alias := ''as'' \<rparr>))"
  using DeserializePartOfProperty_no_error [where mgr = sample_mgr and url_Parse = net_url_Parse
      and aliasMap = "Map.empty (vocabularyURI \<mapsto> ''as'')"
      and i = "JObj (Map.empty (''name'' \<mapsto> JStr ''x''))"
      and m = "Map.empty (''as:partOf'' \<mapsto> JObj (Map.empty (''name'' \<mapsto> JStr ''x'')))"]
  by (simp add: propName_of_def alias_of_def schemed_IRI_string_def accepted_map_def
      partOf_candidates_def sample_mgr_def)

text \<open>
  Claim C8, as amended. When the key of the property holds a string that \<^verbatim>\<open>url.Parse\<close>
  parses into a URL with a non-empty scheme, deserializing and then serializing yields
  the \<^verbatim>\<open>String()\<close> of the parsed URL. That is the input string for every input that
  \<^verbatim>\<open>String()\<close> writes back as it was, such as \<^verbatim>\<open>https://ex.example/x\<close>.
\<close>

theorem schemed_string_roundtrip:
  fixes mgr :: "'v manager"
  assumes "m (propName_of (alias_of aliasMap) ''partOf'') = Some (JStr s)"
      and "url_Parse s = Inr u" and "Scheme u \<noteq> []"
  shows "deserialize_then_Serialize url_Parse url_String mgr V m aliasMap =
           Some (Inr (JStr (url_String u)))"
  using assms
  by (simp add: deserialize_then_Serialize_def DeserializePartOfProperty_def Let_def
      partOf_string_branch_def Serialize_def NewActivityStreamsPartOfProperty_def
      IsActivityStreamsLink_def IsActivityStreamsCollection_def
      IsActivityStreamsCollectionPage_def IsActivityStreamsMention_def
      IsActivityStreamsOrderedCollection_def IsActivityStreamsOrderedCollectionPage_def IsIRI_def)

theorem schemed_string_roundtrip_witness:
  "deserialize_then_Serialize net_url_Parse net_url_String sample_mgr sample_V
     (Map.empty (''partOf'' \<mapsto> JStr ''https://ex.example/x'')) Map.empty =
     Some (Inr (JStr ''https://ex.example/x''))"
  using schemed_string_roundtrip [where mgr = sample_mgr and url_Parse = net_url_Parse
      and url_String = net_url_String and V = sample_V
      and aliasMap = Map.empty and s = "''https://ex.example/x''"
      and u = "\<lparr> Scheme = ''https'', Remainder = ''//ex.example/x'' \<rparr>"
      and m = "Map.empty (''partOf'' \<mapsto> JStr ''https://ex.example/x'')"]
  by (simp add: propName_of_def alias_of_def net_url_Parse_https net_url_String_def)

text \<open>
  The claim as it is stated fails for a scheme written in upper case: \<^verbatim>\<open>url.Parse\<close> stores
  the scheme in lower case, so \<^verbatim>\<open>HTTPS://ex.example/x\<close> comes back as
  \<^verbatim>\<open>https://ex.example/x\<close>.
\<close>

theorem roundtrip_upper_case_scheme:
  "deserialize_then_Serialize net_url_Parse net_url_String sample_mgr sample_V
     (Map.empty (''partOf'' \<mapsto> JStr ''HTTPS://ex.example/x'')) Map.empty =
     Some (Inr (JStr ''https://ex.example/x''))"
  by (simp add: deserialize_then_Serialize_def DeserializePartOfProperty_def Let_def
      propName_of_def alias_of_def net_url_Parse_HTTPS net_url_String_def
      partOf_string_branch_def Serialize_def NewActivityStreamsPartOfProperty_def
      IsActivityStreamsLink_def IsActivityStreamsCollection_def
      IsActivityStreamsCollectionPage_def IsActivityStreamsMention_def
      IsActivityStreamsOrderedCollection_def IsActivityStreamsOrderedCollectionPage_def IsIRI_def)

text \<open>
  Claim C10. \<^verbatim>\<open>HasAny()\<close> is true if and only if \<^verbatim>\<open>KindIndex()\<close> is not -1, in every state
  of the property. In particular the property deserialized from a number or an array
  has \<^verbatim>\<open>HasAny()\<close> false and \<^verbatim>\<open>KindIndex()\<close> -1, and its \<^verbatim>\<open>Serialize()\<close> still returns the
  stored value.
\<close>

theorem HasAny_iff_KindIndex:
  fixes this :: "'v ActivityStreamsPartOfProperty" and mgr :: "'v manager"
  shows
  "(HasAny this = (KindIndex this \<noteq> - 1)) \<and>
   (m (propName_of (alias_of aliasMap) ''partOf'') = Some i \<and> (i = JNum n \<or> i = JArr xs) \<longrightarrow>
     (\<exists>p. DeserializePartOfProperty url_Parse mgr m aliasMap = Inr (Some p) \<and>
          \<not> HasAny p \<and> KindIndex p = - 1 \<and> Serialize V url_String p = Inr i))"
proof (intro conjI impI)
  show "HasAny this = (KindIndex this \<noteq> - 1)"
    by (simp add: HasAny_def KindIndex_def IsIRI_def)
next
  assume h: "m (propName_of (alias_of aliasMap) ''partOf'') = Some i \<and> (i = JNum n \<or> i = JArr xs)"
  then have s: "partOf_string_branch url_Parse (alias_of aliasMap) i =
      (None :: 'v ActivityStreamsPartOfProperty option)"
    and b: "partOf_map_branch mgr (alias_of aliasMap) aliasMap i = None"
    by (auto simp: partOf_string_branch_def partOf_map_branch_def)
  let ?p = "NewActivityStreamsPartOfProperty \<lparr> unknown := i, alias := alias_of aliasMap \<rparr>"
  have "DeserializePartOfProperty url_Parse mgr m aliasMap = Inr (Some ?p)"
    using h s b by (simp add: DeserializePartOfProperty_def Let_def)
  moreover have "\<not> HasAny ?p" "KindIndex ?p = - 1" "Serialize V url_String ?p = Inr i"
    by (simp_all add: HasAny_def KindIndex_def Serialize_def Is_defs NewActivityStreamsPartOfProperty_def)
  ultimately show "\<exists>p. DeserializePartOfProperty url_Parse mgr m aliasMap = Inr (Some p) \<and>
          \<not> HasAny p \<and> KindIndex p = - 1 \<and> Serialize V url_String p = Inr i"
    by blast
qed

theorem HasAny_iff_KindIndex_witness:
  "HasAny (NewActivityStreamsPartOfProperty :: string ActivityStreamsPartOfProperty) =
     (KindIndex (NewActivityStreamsPartOfProperty :: string ActivityStreamsPartOfProperty) \<noteq> - 1) \<and>
   (\<exists>p. DeserializePartOfProperty net_url_Parse sample_mgr
           (Map.empty (''partOf'' \<mapsto> JNum 5)) Map.empty = Inr (Some p) \<and>
        \<not> HasAny p \<and> KindIndex p = - 1 \<and>
        Serialize sample_V net_url_String p = Inr (JNum 5))"
  using HasAny_iff_KindIndex [where this = "NewActivityStreamsPartOfProperty :: string ActivityStreamsPartOfProperty"
      and m = "Map.empty (''partOf'' \<mapsto> JNum 5)" and aliasMap = Map.empty and i = "JNum 5"
      and n = 5 and xs = "[]" and url_Parse = net_url_Parse and mgr = sample_mgr
      and V = sample_V and url_String = net_url_String]
  by (simp add: propName_of_def alias_of_def)

section \<open>Helper facts about the Question\<close>

lemma find_Question_stripped:
  "find_Question xs aliasPrefix \<longleftrightarrow> JStr ''Question'' \<in> set (map (stripped aliasPrefix) xs)"
proof (induction xs)
  case Nil
  show ?case by simp
next
  case (Cons x xs)
  then show ?case by (cases x) auto
qed

lemma check_type_rejected:
  "check_type m aliasPrefix \<noteq> None \<longleftrightarrow> type_rejected m aliasPrefix"
  by (simp add: check_type_def type_rejected_def find_Question_stripped Let_def
      split: option.splits json.splits)

lemma deserialize_known_succeeds:
  "\<forall>n \<in> set ns. \<not> isl (D n m aliasMap) \<Longrightarrow>
     \<exists>this'. deserialize_known D ns m aliasMap this = Inr this' \<and>
             question_unknown this' = question_unknown this \<and>
             question_alias this' = question_alias this"
proof (induction ns arbitrary: this)
  case Nil
  show ?case by simp
next
  case (Cons n ns)
  from Cons.prems obtain p where p: "D n m aliasMap = Inr p"
    by (cases "D n m aliasMap") auto
  from Cons.prems have rest: "\<forall>n \<in> set ns. \<not> isl (D n m aliasMap)" by simp
  show ?case
    using Cons.IH [OF rest, of "if p \<noteq> None then this \<lparr> props := (props this) (n := p) \<rparr> else this"] p
    by (auto split: if_splits)
qed

lemma TrimPrefix_Question: "TrimPrefix ''Question'' (aliasPrefix_of aliasMap) = ''Question''"
proof (cases "aliasMap vocabularyURI")
  case None
  then show ?thesis by (simp add: aliasPrefix_of_def TrimPrefix_def)
next
  case (Some a)
  have "take (length (a @ '':'')) ''Question'' \<noteq> a @ '':''"
  proof
    assume eq: "take (length (a @ '':'')) ''Question'' = a @ '':''"
    have "CHR '':'' \<in> set (a @ '':'')" by simp
    with eq have "CHR '':'' \<in> set (take (length (a @ '':'')) ''Question'')" by simp
    then have "CHR '':'' \<in> set ''Question''" by (rule in_set_takeD)
    then show False by simp
  qed
  with Some show ?thesis by (simp add: aliasPrefix_of_def TrimPrefix_def)
qed

lemma all_question_properties: "n \<in> set question_properties"
  by (cases n) (simp_all add: question_properties_def)

lemma distinct_question_properties: "distinct question_properties"
  by (simp add: question_properties_def)

lemma deserialize_known_props:
  "\<forall>n \<in> set ns. \<not> isl (D n m aliasMap) \<Longrightarrow> distinct ns \<Longrightarrow>
     \<exists>this'. deserialize_known D ns m aliasMap this = Inr this' \<and>
             question_unknown this' = question_unknown this \<and>
             question_alias this' = question_alias this \<and>
             (\<forall>n. props this' n =
                  (if n \<in> set ns \<and> projr (D n m aliasMap) \<noteq> None
                   then projr (D n m aliasMap) else props this n))"
proof (induction ns arbitrary: this)
  case Nil
  show ?case by simp
next
  case (Cons a ns)
  from Cons.prems obtain p where p: "D a m aliasMap = Inr p"
    by (cases "D a m aliasMap") auto
  from Cons.prems have rest: "\<forall>n \<in> set ns. \<not> isl (D n m aliasMap)" and d: "distinct ns"
    and notin: "a \<notin> set ns"
    by simp_all
  let ?t = "if p \<noteq> None then this \<lparr> props := (props this) (a := p) \<rparr> else this"
  from Cons.IH [OF rest d, of ?t] obtain this' where
    r: "deserialize_known D ns m aliasMap ?t = Inr this'"
    and u: "question_unknown this' = question_unknown ?t"
    and al: "question_alias this' = question_alias ?t"
    and pr: "\<forall>n. props this' n =
                  (if n \<in> set ns \<and> projr (D n m aliasMap) \<noteq> None
                   then projr (D n m aliasMap) else props ?t n)"
    by blast
  have "deserialize_known D (a # ns) m aliasMap this = Inr this'"
    using p r by simp
  moreover have "question_unknown this' = question_unknown this"
    using u by (simp split: if_splits)
  moreover have "question_alias this' = question_alias this"
    using al by (simp split: if_splits)
  moreover have "\<forall>n. props this' n =
                  (if n \<in> set (a # ns) \<and> projr (D n m aliasMap) \<noteq> None
                   then projr (D n m aliasMap) else props this n)"
    using pr p notin by (auto split: if_splits)
  ultimately show ?case by blast
qed

lemma serialize_known_emits:
  assumes noerr: "\<forall>n p. props this n = Some p \<longrightarrow> \<not> isl (Serialize_property P p)"
  shows "\<exists>m'. serialize_known P ns this m = Inr m' \<and>
           (\<forall>k. (\<not> (\<exists>i. known_emits P this ns k i) \<and> m' k = m k) \<or>
                (\<exists>i. known_emits P this ns k i \<and> m' k = Some i))"
proof (induction ns arbitrary: m)
  case Nil
  show ?case by (simp add: known_emits_def)
next
  case (Cons n ns)
  show ?case
  proof (cases "props this n")
    case None
    then have same: "\<And>k i. known_emits P this (n # ns) k i = known_emits P this ns k i"
      by (simp add: known_emits_def)
    from Cons.IH [of m] None show ?thesis by (simp add: same)
  next
    case (Some p)
    from noerr Some have "\<not> isl (Serialize_property P p)" by blast
    then obtain i where i: "Serialize_property P p = Inr i"
      by (cases "Serialize_property P p") auto
    let ?m = "if i \<noteq> JNil then m (Name_of P p \<mapsto> i) else m"
    from Cons.IH [of ?m] obtain m' where
      m': "serialize_known P ns this ?m = Inr m'"
      and ch: "\<forall>k. (\<not> (\<exists>i. known_emits P this ns k i) \<and> m' k = ?m k) \<or>
                (\<exists>i. known_emits P this ns k i \<and> m' k = Some i)"
      by blast
    have step: "\<And>k j. known_emits P this (n # ns) k j =
        ((Name_of P p = k \<and> i = j \<and> i \<noteq> JNil) \<or> known_emits P this ns k j)"
      using Some i by (auto simp: known_emits_def)
    have "\<forall>k. (\<not> (\<exists>i. known_emits P this (n # ns) k i) \<and> m' k = m k) \<or>
                (\<exists>i. known_emits P this (n # ns) k i \<and> m' k = Some i)"
    proof
      fix k
      from ch have "(\<not> (\<exists>i. known_emits P this ns k i) \<and> m' k = ?m k) \<or>
                (\<exists>i. known_emits P this ns k i \<and> m' k = Some i)" by blast
      then show "(\<not> (\<exists>i. known_emits P this (n # ns) k i) \<and> m' k = m k) \<or>
                (\<exists>i. known_emits P this (n # ns) k i \<and> m' k = Some i)"
        unfolding step by (auto split: if_splits)
    qed
    moreover have "serialize_known P (n # ns) this m = Inr m'"
      using Some i m' by simp
    ultimately show ?thesis by blast
  qed
qed

section \<open>The claims about the Question\<close>

text \<open>
  Claim C3 says that \<^verbatim>\<open>LessThan\<close> returns false at the first property that is non-nil on
  this side and nil on the other side. The third test of every block of the source,
  \<^verbatim>\<open>rhs != nil && rhs == nil\<close>, is never true, so there the code goes on to the next
  property instead: with \<^verbatim>\<open>actor\<close> set on this side only and \<^verbatim>\<open>altitude\<close> set on the other
  side only, \<^verbatim>\<open>LessThan\<close> returns true.
\<close>

theorem Question_LessThan_skips_nil_other:
  "Question_LessThan sample_P
     (bare_Question \<lparr> props := (\<lambda>n. None) (ActivityStreamsActor := Some (''actor'', 1)) \<rparr>)
     (bare_Question \<lparr> props := (\<lambda>n. None) (ActivityStreamsAltitude := Some (''altitude'', 2)) \<rparr>)
   = True"
  by (simp add: Question_LessThan_def question_properties_def bare_Question_def)

text \<open>
  Claim C7. \<^verbatim>\<open>DeserializeQuestion\<close> returns an error whenever the \<^verbatim>\<open>"type"\<close> key is missing,
  or is a string other than \<^verbatim>\<open>"Question"\<close> after the alias prefix is stripped, or is an
  array without such a string, or is neither a string nor an array; and when no property
  deserializer of the registry returns an error on the input, it returns an error exactly
  in these cases, and succeeds otherwise.
\<close>

theorem DeserializeQuestion_error_iff:
  "(type_rejected m (aliasPrefix_of aliasMap) \<longrightarrow> isl (DeserializeQuestion D m aliasMap)) \<and>
   ((\<forall>n \<in> set question_properties. \<not> isl (D n m aliasMap)) \<longrightarrow>
      (isl (DeserializeQuestion D m aliasMap) \<longleftrightarrow> type_rejected m (aliasPrefix_of aliasMap)))"
proof (intro conjI impI)
  assume "type_rejected m (aliasPrefix_of aliasMap)"
  then have "check_type m (aliasPrefix_of aliasMap) \<noteq> None"
    using check_type_rejected [of m "aliasPrefix_of aliasMap"] by blast
  then show "isl (DeserializeQuestion D m aliasMap)"
    by (auto simp: DeserializeQuestion_def Let_def)
next
  assume ok: "\<forall>n \<in> set question_properties. \<not> isl (D n m aliasMap)"
  show "isl (DeserializeQuestion D m aliasMap) \<longleftrightarrow> type_rejected m (aliasPrefix_of aliasMap)"
  proof (cases "check_type m (aliasPrefix_of aliasMap)")
    case None
    then have "\<not> type_rejected m (aliasPrefix_of aliasMap)"
      using check_type_rejected [of m "aliasPrefix_of aliasMap"] by simp
    moreover have "\<not> isl (DeserializeQuestion D m aliasMap)"
      using None ok deserialize_known_succeeds [where D = D and m = m and aliasMap = aliasMap
          and ns = question_properties
          and this = "\<lparr> props = (\<lambda>n. None), question_alias = alias_of aliasMap,
               question_unknown = Map.empty \<rparr>"]
      by (auto simp: DeserializeQuestion_def Let_def)
    ultimately show ?thesis by simp
  next
    case (Some err)
    then have "type_rejected m (aliasPrefix_of aliasMap)"
      using check_type_rejected [of m "aliasPrefix_of aliasMap"] by simp
    moreover have "isl (DeserializeQuestion D m aliasMap)"
      using Some by (simp add: DeserializeQuestion_def Let_def)
    ultimately show ?thesis by simp
  qed
qed

theorem DeserializeQuestion_error_iff_witness:
  "isl (DeserializeQuestion sample_D (Map.empty (''type'' \<mapsto> JStr ''Note'')) Map.empty) \<and>
   \<not> isl (DeserializeQuestion sample_D
            (Map.empty (''type'' \<mapsto> JArr [JStr ''Note'', JStr ''as:Question'']))
            (Map.empty (vocabularyURI \<mapsto> ''as'')))"
  using DeserializeQuestion_error_iff [where D = sample_D and aliasMap = Map.empty
      and m = "Map.empty (''type'' \<mapsto> JStr ''Note'')"]
    DeserializeQuestion_error_iff [where D = sample_D
      and aliasMap = "Map.empty (vocabularyURI \<mapsto> ''as'')"
      and m = "Map.empty (''type'' \<mapsto> JArr [JStr ''Note'', JStr ''as:Question''])"]
  by (simp add: type_rejected_def aliasPrefix_of_def TrimPrefix_def sample_D_def)

text \<open>
  Claim C9, as amended. For every input map with \<^verbatim>\<open>"type": "Question"\<close> on which no
  property deserializer of the registry returns an error, \<^verbatim>\<open>DeserializeQuestion\<close> succeeds,
  stores what each property deserializer returned, and \<^verbatim>\<open>GetUnknownProperties()\<close> holds
  exactly the entries of the input whose key is not one of the declared property names.
  A \<^verbatim>\<open>Serialize()\<close> in which no property's own \<^verbatim>\<open>Serialize\<close> returns an error then succeeds
  and emits every such entry unchanged, except at a key that a known property has
  emitted: there the output holds a known property's value and the unknown entry is
  dropped.
\<close>

theorem Question_unknown_preserved:
  assumes type: "m ''type'' = Some (JStr ''Question'')"
      and ok: "\<forall>n \<in> set question_properties. \<not> isl (D n m aliasMap)"
  shows
  "\<exists>this. DeserializeQuestion D m aliasMap = Inr this \<and>
     (\<forall>n. D n m aliasMap = Inr (props this n)) \<and>
     (\<forall>k v. GetUnknownProperties this k = Some v \<longleftrightarrow>
             k \<notin> set known_property_names \<and> m k = Some v) \<and>
     (\<forall>P. (\<forall>n p. props this n = Some p \<longrightarrow> \<not> isl (Serialize_property P p)) \<longrightarrow>
        (\<exists>out. Question_Serialize P this = Inr out \<and>
           (\<forall>k v. GetUnknownProperties this k = Some v \<longrightarrow>
              (\<not> (\<exists>i. known_emits P this question_properties k i) \<longrightarrow> out k = Some v) \<and>
              ((\<exists>i. known_emits P this question_properties k i) \<longrightarrow>
                 (\<exists>i. known_emits P this question_properties k i \<and> out k = Some i)))))"
proof -
  let ?q0 = "\<lparr> props = (\<lambda>n. None), question_alias = alias_of aliasMap,
                question_unknown = Map.empty \<rparr> :: 'a ActivityStreamsQuestion"
  from type have "\<not> type_rejected m (aliasPrefix_of aliasMap)"
    by (simp add: type_rejected_def TrimPrefix_Question)
  then have ct: "check_type m (aliasPrefix_of aliasMap) = None"
    using check_type_rejected [of m "aliasPrefix_of aliasMap"] by blast
  from ok distinct_question_properties
    deserialize_known_props [where D = D and m = m and aliasMap = aliasMap
      and ns = question_properties and this = ?q0]
  obtain this' where
    dk: "deserialize_known D question_properties m aliasMap ?q0 = Inr this'"
    and un: "question_unknown this' = Map.empty"
    and pr: "\<forall>n. props this' n =
                  (if n \<in> set question_properties \<and> projr (D n m aliasMap) \<noteq> None
                   then projr (D n m aliasMap) else props ?q0 n)"
    by auto
  let ?q = "this' \<lparr> question_unknown := collect_unknown m (question_unknown this') \<rparr>"
  have des: "DeserializeQuestion D m aliasMap = Inr ?q"
    using ct dk by (simp add: DeserializeQuestion_def Let_def)
  have link: "\<forall>n. D n m aliasMap = Inr (props ?q n)"
  proof
    fix n
    from ok all_question_properties [of n] obtain p where p: "D n m aliasMap = Inr p"
      by (cases "D n m aliasMap") auto
    with pr all_question_properties [of n] show "D n m aliasMap = Inr (props ?q n)"
      by (cases p) simp_all
  qed
  have unk: "\<forall>k v. GetUnknownProperties ?q k = Some v \<longleftrightarrow>
             k \<notin> set known_property_names \<and> m k = Some v"
    using un by (auto simp: GetUnknownProperties_def collect_unknown_def split: option.splits)
  have ty: "''type'' \<in> set known_property_names" by (simp add: known_property_names_def)
  have ser: "\<forall>P. (\<forall>n p. props ?q n = Some p \<longrightarrow> \<not> isl (Serialize_property P p)) \<longrightarrow>
        (\<exists>out. Question_Serialize P ?q = Inr out \<and>
           (\<forall>k v. GetUnknownProperties ?q k = Some v \<longrightarrow>
              (\<not> (\<exists>i. known_emits P ?q question_properties k i) \<longrightarrow> out k = Some v) \<and>
              ((\<exists>i. known_emits P ?q question_properties k i) \<longrightarrow>
                 (\<exists>i. known_emits P ?q question_properties k i \<and> out k = Some i))))"
  proof (intro allI impI)
    fix P :: "'a property_methods"
    assume noerr: "\<forall>n p. props ?q n = Some p \<longrightarrow> \<not> isl (Serialize_property P p)"
    let ?m0 = "Map.empty (''type'' \<mapsto> JStr (if length (question_alias ?q) > 0
                      then question_alias ?q @ '':'' @ ''Question'' else ''Question''))"
    from serialize_known_emits [OF noerr, of question_properties ?m0]
    obtain m' where m': "serialize_known P question_properties ?q ?m0 = Inr m'"
      and ch: "\<forall>k. (\<not> (\<exists>i. known_emits P ?q question_properties k i) \<and> m' k = ?m0 k) \<or>
                (\<exists>i. known_emits P ?q question_properties k i \<and> m' k = Some i)"
      by blast
    have out: "Question_Serialize P ?q = Inr (merge_unknown (question_unknown ?q) m')"
      using m' by (simp add: Question_Serialize_def Question_Serialize_known_def Let_def)
    have "\<forall>k v. GetUnknownProperties ?q k = Some v \<longrightarrow>
              (\<not> (\<exists>i. known_emits P ?q question_properties k i) \<longrightarrow>
                 merge_unknown (question_unknown ?q) m' k = Some v) \<and>
              ((\<exists>i. known_emits P ?q question_properties k i) \<longrightarrow>
                 (\<exists>i. known_emits P ?q question_properties k i \<and>
                      merge_unknown (question_unknown ?q) m' k = Some i))"
    proof (intro allI impI)
      fix k v
      assume g: "GetUnknownProperties ?q k = Some v"
      with unk ty have nt: "k \<noteq> ''type''" by blast
      then have m0: "?m0 k = None" by simp
      from ch have c: "(\<not> (\<exists>i. known_emits P ?q question_properties k i) \<and> m' k = ?m0 k) \<or>
                (\<exists>i. known_emits P ?q question_properties k i \<and> m' k = Some i)" by blast
      show "(\<not> (\<exists>i. known_emits P ?q question_properties k i) \<longrightarrow>
                 merge_unknown (question_unknown ?q) m' k = Some v) \<and>
              ((\<exists>i. known_emits P ?q question_properties k i) \<longrightarrow>
                 (\<exists>i. known_emits P ?q question_properties k i \<and>
                      merge_unknown (question_unknown ?q) m' k = Some i))"
        using c m0 g by (auto simp: merge_unknown_def GetUnknownProperties_def)
    qed
    with out show "\<exists>out. Question_Serialize P ?q = Inr out \<and>
           (\<forall>k v. GetUnknownProperties ?q k = Some v \<longrightarrow>
              (\<not> (\<exists>i. known_emits P ?q question_properties k i) \<longrightarrow> out k = Some v) \<and>
              ((\<exists>i. known_emits P ?q question_properties k i) \<longrightarrow>
                 (\<exists>i. known_emits P ?q question_properties k i \<and> out k = Some i)))"
      by blast
  qed
  from des link unk ser show ?thesis by blast
qed

theorem Question_unknown_preserved_witness:
  "\<exists>this. DeserializeQuestion sample_actor_D
            (Map.empty (''type'' \<mapsto> JStr ''Question'', ''foo'' \<mapsto> JStr ''bar'',
                        ''as:actor'' \<mapsto> JArr [JStr ''https://ex.example/a'']))
            (Map.empty (vocabularyURI \<mapsto> ''as''))
          = Inr this \<and>
     props this ActivityStreamsActor = Some (''as:actor'', 1) \<and>
     GetUnknownProperties this ''foo'' = Some (JStr ''bar'') \<and>
     GetUnknownProperties this ''as:actor'' = Some (JArr [JStr ''https://ex.example/a'']) \<and>
     GetUnknownProperties this ''type'' = None \<and>
     (\<exists>out. Question_Serialize sample_P this = Inr out \<and>
            out ''foo'' = Some (JStr ''bar'') \<and> out ''as:actor'' = Some (JNum 1))"
proof -
  let ?m = "Map.empty (''type'' \<mapsto> JStr ''Question'', ''foo'' \<mapsto> JStr ''bar'',
                        ''as:actor'' \<mapsto> JArr [JStr ''https://ex.example/a''])"
  let ?a = "Map.empty (vocabularyURI \<mapsto> ''as'')"
  have type: "?m ''type'' = Some (JStr ''Question'')" by simp
  have actor: "sample_actor_D ActivityStreamsActor ?m ?a = Inr (Some (''as:actor'', 1))"
    by (simp add: sample_actor_D_def propName_of_def alias_of_def)
  have others: "\<And>n. n \<noteq> ActivityStreamsActor \<Longrightarrow> sample_actor_D n ?m ?a = Inr None"
    by (simp add: sample_actor_D_def)
  have ok: "\<forall>n \<in> set question_properties. \<not> isl (sample_actor_D n ?m ?a)"
  proof
    fix n
    show "\<not> isl (sample_actor_D n ?m ?a)"
      using actor others [of n] by (cases "n = ActivityStreamsActor") simp_all
  qed
  from Question_unknown_preserved [where D = sample_actor_D and m = ?m and aliasMap = ?a,
      OF type ok]
  obtain q where
    des: "DeserializeQuestion sample_actor_D ?m ?a = Inr q"
    and link: "\<forall>n. sample_actor_D n ?m ?a = Inr (props q n)"
    and unk: "\<forall>k v. GetUnknownProperties q k = Some v \<longleftrightarrow>
                k \<notin> set known_property_names \<and> ?m k = Some v"
    and ser: "\<forall>P. (\<forall>n p. props q n = Some p \<longrightarrow> \<not> isl (Serialize_property P p)) \<longrightarrow>
        (\<exists>out. Question_Serialize P q = Inr out \<and>
           (\<forall>k v. GetUnknownProperties q k = Some v \<longrightarrow>
              (\<not> (\<exists>i. known_emits P q question_properties k i) \<longrightarrow> out k = Some v) \<and>
              ((\<exists>i. known_emits P q question_properties k i) \<longrightarrow>
                 (\<exists>i. known_emits P q question_properties k i \<and> out k = Some i))))"
    by blast
  from link actor have pa: "props q ActivityStreamsActor = Some (''as:actor'', 1)"
    by (metis sum.inject(2))
  have pn: "\<And>n. n \<noteq> ActivityStreamsActor \<Longrightarrow> props q n = None"
    using link others by (metis sum.inject(2))
  have foo: "GetUnknownProperties q ''foo'' = Some (JStr ''bar'')"
    using unk by (simp add: known_property_names_def)
  have act: "GetUnknownProperties q ''as:actor'' = Some (JArr [JStr ''https://ex.example/a''])"
    using unk by (simp add: known_property_names_def)
  have "''type'' \<in> set known_property_names" by (simp add: known_property_names_def)
  with unk have ty: "GetUnknownProperties q ''type'' = None"
    by (cases "GetUnknownProperties q ''type''") auto
  have ke: "\<And>k i. known_emits sample_P q question_properties k i \<longleftrightarrow>
                k = ''as:actor'' \<and> i = JNum 1"
  proof -
    fix k i
    have "\<And>n. (case props q n of None \<Rightarrow> False
               | Some p \<Rightarrow> Name_of sample_P p = k \<and> Serialize_property sample_P p = Inr i \<and>
                           i \<noteq> JNil) \<longleftrightarrow>
              n = ActivityStreamsActor \<and> k = ''as:actor'' \<and> i = JNum 1"
    proof -
      fix n
      show "(case props q n of None \<Rightarrow> False
               | Some p \<Rightarrow> Name_of sample_P p = k \<and> Serialize_property sample_P p = Inr i \<and>
                           i \<noteq> JNil) \<longleftrightarrow>
              n = ActivityStreamsActor \<and> k = ''as:actor'' \<and> i = JNum 1"
        using pa pn [of n] by (cases "n = ActivityStreamsActor") (auto simp: sample_P_def)
    qed
    then show "known_emits sample_P q question_properties k i \<longleftrightarrow>
                k = ''as:actor'' \<and> i = JNum 1"
      using all_question_properties [of ActivityStreamsActor]
      by (auto simp: known_emits_def)
  qed
  have noerr: "\<forall>n p. props q n = Some p \<longrightarrow> \<not> isl (Serialize_property sample_P p)"
    by (simp add: sample_P_def)
  with ser obtain out where
    o: "Question_Serialize sample_P q = Inr out"
    and e: "\<forall>k v. GetUnknownProperties q k = Some v \<longrightarrow>
              (\<not> (\<exists>i. known_emits sample_P q question_properties k i) \<longrightarrow> out k = Some v) \<and>
              ((\<exists>i. known_emits sample_P q question_properties k i) \<longrightarrow>
                 (\<exists>i. known_emits sample_P q question_properties k i \<and> out k = Some i))"
    by blast
  from e foo have of: "out ''foo'' = Some (JStr ''bar'')" by (simp add: ke)
  from e act have oa: "out ''as:actor'' = Some (JNum 1)" by (simp add: ke)
  from des pa foo act ty o of oa show ?thesis by blast
qed

text \<open>
  The claim as it is stated fails where a collaborator returns an error, which both
  functions hand on (\<^verbatim>\<open>return nil, err\<close>): \<^verbatim>\<open>DeserializeQuestion\<close> on a map with
  \<^verbatim>\<open>"type": "Question"\<close> and \<^verbatim>\<open>"foo": "bar"\<close> whose \<^verbatim>\<open>actor\<close> the registry rejects, and
  \<^verbatim>\<open>Serialize\<close> of a Question with an unknown entry and a property whose own \<^verbatim>\<open>Serialize\<close>
  fails.
\<close>

theorem Question_collaborator_error:
  "DeserializeQuestion sample_actor_D
     (Map.empty (''type'' \<mapsto> JStr ''Question'', ''foo'' \<mapsto> JStr ''bar'', ''actor'' \<mapsto> JNum 5))
     Map.empty = Inl (Failure ''actor is not a list'') \<and>
   Question_Serialize (sample_P \<lparr> Serialize_property := (\<lambda>p. Inl (Failure ''no value'')) \<rparr>)
     (bare_Question \<lparr> props := (\<lambda>n. None) (ActivityStreamsActor := Some (''actor'', 1)),
                      question_unknown := Map.empty (''foo'' \<mapsto> JStr ''bar'') \<rparr>)
     = Inl (Failure ''no value'')"
  by (simp add: DeserializeQuestion_def Let_def check_type_def TrimPrefix_def aliasPrefix_of_def
      alias_of_def propName_of_def question_properties_def sample_actor_D_def
      Question_Serialize_def Question_Serialize_known_def bare_Question_def sample_P_def)

end
